theory Spec2Isabelle
  imports Complex_Main
begin

section \<open>Data model\<close>

text \<open>
  The governance engine of AgentDock: the policy engine (\<^verbatim>\<open>policyEngine.ts\<close>), the
  agent REST API (\<^verbatim>\<open>approvalApi.ts\<close>), the indexer webhook (\<^verbatim>\<open>webhookHandler.ts\<close>)
  and the owner's response path of the mobile client (\<^verbatim>\<open>services/firebase.ts\<close>,
  \<^verbatim>\<open>store/useAgentStore.ts\<close>, \<^verbatim>\<open>screens/ApprovalScreen.tsx\<close>).

  Conventions of the embedding.
  \<^item> A JavaScript \<^verbatim>\<open>number\<close> is an IEEE-754 double: a real, one of the two infinities,
    or NaN. Every arithmetic result is rounded to the nearest double, ties to even. The
    sign of a zero is not kept: no comparison and no operation used here tells the two
    zeros apart.
  \<^item> A string is the list of its characters, a character outside ASCII being the bytes
    of its UTF-8 encoding; this is also the order in which the store compares strings.
  \<^item> A \<^verbatim>\<open>Date\<close> is its time value, an \<open>int\<close> of milliseconds since the epoch. The
    \<^verbatim>\<open>timestamp\<close> of a transaction document is the ISO-8601 string that is stored, since
    the ledger query compares it as a string. The timestamps of an approval request are
    written with \<^verbatim>\<open>toISOString\<close> and read back with \<^verbatim>\<open>new Date(...)\<close> only; they are kept
    as the time values they denote.
  \<^item> A Firestore collection is the list of its documents in the order a query returns
    them; \<^verbatim>\<open>collection.doc()\<close> followed by \<^verbatim>\<open>set\<close> adds a document at the end.
  \<^item> What the environment decides (the clock, generated identifiers, whether an awaited
    call to the store or to the messaging service rejects) is an explicit argument.
\<close>

type_synonym docId = string
type_synonym time = int

subsection \<open>Numbers\<close>

datatype number = NaN | NInf | Fin real | PInf

text \<open>Powers of two with an integer exponent.\<close>

definition pow2 :: "int \<Rightarrow> real" where
  "pow2 k = (if 0 \<le> k then 2 ^ nat k else 1 / 2 ^ nat (- k))"

text \<open>The integer nearest to a real, the even one of two that are equally near.\<close>

definition roundHalfEven :: "real \<Rightarrow> int" where
  "roundHalfEven m =
     (let f = \<lfloor>m\<rfloor> in
      if m - of_int f < 1 / 2 then f
      else if 1 / 2 < m - of_int f then f + 1
      else if even f then f else f + 1)"

text \<open>The exponent \<open>e\<close> with \<open>2 ^ e \<le> \<bar>x\<bar> < 2 ^ (e + 1)\<close>, not below that of the smallest
  normal double.\<close>

definition binade :: "real \<Rightarrow> int" where
  "binade x = max (- 1022) \<lfloor>log 2 \<bar>x\<bar>\<rfloor>"

text \<open>Rounding of a real to a double (binary64, to nearest, ties to even): 53 significant
  bits, the spacing of the subnormal numbers below \<open>2 ^ - 1022\<close>, an infinity from
  \<open>2 ^ 1024\<close> on.\<close>

definition round64 :: "real \<Rightarrow> number" where
  "round64 x =
     (if x = 0 then Fin 0
      else let ulp = pow2 (binade x - 52);
               y = of_int (roundHalfEven (x / ulp)) * ulp
           in if pow2 1024 \<le> \<bar>y\<bar> then (if x < 0 then NInf else PInf) else Fin y)"

text \<open>A decimal literal of the source.\<close>

definition literal :: "real \<Rightarrow> number" where
  "literal x = round64 x"

text \<open>\<^verbatim>\<open>x + y\<close>\<close>

fun add :: "number \<Rightarrow> number \<Rightarrow> number" where
  "add NaN y = NaN"
| "add x NaN = NaN"
| "add PInf NInf = NaN"
| "add NInf PInf = NaN"
| "add PInf y = PInf"
| "add x PInf = PInf"
| "add NInf y = NInf"
| "add x NInf = NInf"
| "add (Fin x) (Fin y) = round64 (x + y)"

text \<open>\<^verbatim>\<open>x * c\<close> and \<^verbatim>\<open>x / c\<close> for a constant \<open>c\<close> of the source, which is positive and
  finite.\<close>

fun mul :: "number \<Rightarrow> real \<Rightarrow> number" where
  "mul (Fin x) c = round64 (x * c)"
| "mul x c = x"

fun over :: "number \<Rightarrow> real \<Rightarrow> number" where
  "over (Fin x) c = round64 (x / c)"
| "over x c = x"

text \<open>\<^verbatim>\<open>x > y\<close> and \<^verbatim>\<open>x < y\<close>; a comparison with NaN is false.\<close>

fun gt :: "number \<Rightarrow> number \<Rightarrow> bool" where
  "gt NaN y = False"
| "gt x NaN = False"
| "gt x PInf = False"
| "gt PInf y = True"
| "gt NInf y = False"
| "gt x NInf = True"
| "gt (Fin x) (Fin y) = (y < x)"

definition lt :: "number \<Rightarrow> number \<Rightarrow> bool" where
  "lt x y = gt y x"

text \<open>\<^verbatim>\<open>x ?? 0\<close>, and an absent operand of an arithmetic operation
  (\<^verbatim>\<open>undefined\<close> becomes NaN).\<close>

fun orZero :: "number option \<Rightarrow> number" where
  "orZero None = Fin 0"
| "orZero (Some x) = x"

fun orNaN :: "number option \<Rightarrow> number" where
  "orNaN None = NaN"
| "orNaN (Some x) = x"

subsection \<open>Dates\<close>

text \<open>\<^verbatim>\<open>date.getTime()\<close>\<close>

definition getTime :: "time \<Rightarrow> number" where
  "getTime t = Fin (of_int t)"

text \<open>
  \<^verbatim>\<open>new Date(v)\<close> clips the number \<open>v\<close> to a time value: NaN, an infinity and a number
  beyond 8.64e15 milliseconds on either side of the epoch give an invalid date (and
  \<^verbatim>\<open>toISOString\<close> throws a \<^verbatim>\<open>RangeError\<close>), otherwise the fraction of a millisecond is
  dropped, towards zero.
\<close>

fun TimeClip :: "number \<Rightarrow> time option" where
  "TimeClip (Fin v) =
     (if \<bar>v\<bar> > 8640000000000000 then None
      else Some (if v < 0 then \<lceil>v\<rceil> else \<lfloor>v\<rfloor>))"
| "TimeClip x = None"

text \<open>The year, month and day of a number of days since the epoch (proleptic Gregorian
  calendar).\<close>

definition civil :: "int \<Rightarrow> int \<times> int \<times> int" where
  "civil days =
     (let z = days + 719468;
          era = z div 146097;
          doe = z mod 146097;
          yoe = (doe - doe div 1460 + doe div 36524 - doe div 146096) div 365;
          doy = doe - (365 * yoe + yoe div 4 - yoe div 100);
          mp = (5 * doy + 2) div 153;
          d = doy - (153 * mp + 2) div 5 + 1;
          m = (if mp < 10 then mp + 3 else mp - 9);
          y = yoe + era * 400 + (if m \<le> 2 then 1 else 0)
      in (y, m, d))"

definition digit :: "int \<Rightarrow> char" where
  "digit n = ''0123456789'' ! nat n"

definition pad2 :: "int \<Rightarrow> string" where
  "pad2 n = [digit (n div 10 mod 10), digit (n mod 10)]"

definition pad3 :: "int \<Rightarrow> string" where
  "pad3 n = digit (n div 100 mod 10) # pad2 n"

definition pad4 :: "int \<Rightarrow> string" where
  "pad4 n = digit (n div 1000 mod 10) # pad3 n"

definition pad6 :: "int \<Rightarrow> string" where
  "pad6 n = digit (n div 100000 mod 10) # digit (n div 10000 mod 10) # pad4 n"

text \<open>\<^verbatim>\<open>date.toISOString()\<close> of a valid date: four digits for the years 0 to 9999, a sign and
  six digits for the others.\<close>

definition toISOString :: "time \<Rightarrow> string" where
  "toISOString t =
     (let ms = t mod 86400000;
          ymd = civil (t div 86400000);
          y = fst ymd
      in (if 0 \<le> y \<and> y \<le> 9999 then pad4 y
          else (if y < 0 then ''-'' else ''+'') @ pad6 \<bar>y\<bar>)
         @ ''-'' @ pad2 (fst (snd ymd)) @ ''-'' @ pad2 (snd (snd ymd))
         @ ''T'' @ pad2 (ms div 3600000) @ '':'' @ pad2 (ms div 60000 mod 60)
         @ '':'' @ pad2 (ms div 1000 mod 60) @ ''.'' @ pad3 (ms mod 1000) @ ''Z'')"

text \<open>The order of the store on strings, \<^verbatim>\<open>>=\<close>: byte by byte.\<close>

fun stringGe :: "string \<Rightarrow> string \<Rightarrow> bool" where
  "stringGe xs [] = True"
| "stringGe [] (y # ys) = False"
| "stringGe (x # xs) (y # ys) =
     ((of_char y :: nat) < of_char x \<or> (x = y \<and> stringGe xs ys))"

subsection \<open>Documents\<close>

datatype TransactionType = Transfer | Swap | Stake | ProgramInteraction | UnknownType

datatype TransactionStatus = Success | Failed

datatype ApprovalStatus = Pending | Approved | Denied | Expired

datatype AgentStatus = Active | Paused | Offline

record SpendingPolicy =
  p_id :: docId
  p_agentId :: docId
  dailyLimitSol :: number
  perTxLimitSol :: number
  allowlistedPrograms :: "string list"
  requireApprovalAbove :: number
  isActive :: bool
  updatedAt :: time

record PolicyEvaluation =
  autoApproved :: bool
  reason :: string

text \<open>A document of the \<^verbatim>\<open>transactions\<close> collection, as the webhook builds it
  (\<^verbatim>\<open>txDoc\<close>). A field the source reads with \<^verbatim>\<open>??\<close> or writes only under a condition
  is optional, and so is a field that is \<^verbatim>\<open>undefined\<close> in \<^verbatim>\<open>txDoc\<close> when the event lacks
  it (signature, from, to); the store holds no document with such a field.\<close>

record TransactionRecord =
  tx_id :: docId
  signature :: "string option"
  tx_type :: TransactionType
  tx_description :: string
  tx_timestamp :: string
  tx_status :: TransactionStatus
  fee :: "number option"
  tx_from :: "string option"
  tx_to :: "string option"
  solAmount :: "number option"
  tokenAmount :: "number option"
  tx_tokenSymbol :: "string option"
  receivedAt :: time
  tx_agentId :: "docId option"

record Agent =
  agent_id :: docId
  agent_name :: string
  walletAddress :: string
  agent_description :: string
  agent_status :: AgentStatus
  apiKeyHash :: string
  agent_createdAt :: time
  lastSeenAt :: time
  ownerId :: docId

record ApprovalRequest =
  a_id :: docId
  a_agentId :: docId
  agentName :: string
  a_description :: string
  a_status :: ApprovalStatus
  createdAt :: time
  expiresAt :: time
  respondedAt :: "time option"
  txType :: string
  estimatedSolCost :: number
  targetProgram :: "string option"
  targetAddress :: "string option"
  amount :: "number option"
  tokenSymbol :: "string option"
  policyEvaluation :: string

record AppUser =
  u_id :: docId
  agentIds :: "docId list"
  notificationsEnabled :: bool
  fcmToken :: "string option"

record Db =
  agents :: "Agent list"
  policies :: "SpendingPolicy list"
  approvals :: "ApprovalRequest list"
  transactions :: "TransactionRecord list"
  users :: "AppUser list"

text \<open>JavaScript truthiness of an optional string: \<^verbatim>\<open>undefined\<close> and the empty string
  are falsy.\<close>

fun truthy :: "string option \<Rightarrow> bool" where
  "truthy None = False"
| "truthy (Some s) = (s \<noteq> [])"

text \<open>\<^verbatim>\<open>ref.update(...)\<close> on the document a lookup by id returned: the first document with
  that id is replaced by its update, the others stay.\<close>

fun updateDoc :: "('a \<Rightarrow> bool) \<Rightarrow> ('a \<Rightarrow> 'a) \<Rightarrow> 'a list \<Rightarrow> 'a list" where
  "updateDoc P f [] = []"
| "updateDoc P f (x # xs) = (if P x then f x # xs else x # updateDoc P f xs)"

section \<open>Policy engine (policyEngine.ts)\<close>

text \<open>\<^verbatim>\<open>loadPolicy\<close>: the first document of \<^verbatim>\<open>policies\<close> with the agent's id and
  \<^verbatim>\<open>isActive == true\<close> (\<^verbatim>\<open>limit(1)\<close>), or null.\<close>

definition loadPolicy :: "Db \<Rightarrow> docId \<Rightarrow> SpendingPolicy option" where
  "loadPolicy db agentId =
     find (\<lambda>p. p_agentId p = agentId \<and> isActive p) (policies db)"

text \<open>\<^verbatim>\<open>Date.UTC(now.getUTCFullYear(), now.getUTCMonth(), now.getUTCDate())\<close>: midnight UTC
  of the day of \<open>now\<close>; a day has 86400000 milliseconds.\<close>

definition startOfDay :: "time \<Rightarrow> time" where
  "startOfDay now = now - now mod 86400000"

text \<open>The query of \<^verbatim>\<open>getDailySpending\<close>.\<close>

definition dailyDocs :: "Db \<Rightarrow> time \<Rightarrow> docId \<Rightarrow> TransactionRecord list" where
  "dailyDocs db now agentId =
     filter (\<lambda>d. tx_agentId d = Some agentId \<and> tx_status d = Success
                \<and> stringGe (tx_timestamp d) (toISOString (startOfDay now)))
       (transactions db)"

text \<open>The loop \<^verbatim>\<open>for (const doc of snap.docs) total += (solAmount ?? 0) + (fee ?? 0)\<close>.\<close>

fun sumDocs :: "number \<Rightarrow> TransactionRecord list \<Rightarrow> number" where
  "sumDocs tot [] = tot"
| "sumDocs tot (d # ds) =
     sumDocs (add tot (add (orZero (solAmount d)) (orZero (fee d)))) ds"

definition getDailySpending :: "Db \<Rightarrow> time \<Rightarrow> docId \<Rightarrow> number" where
  "getDailySpending db now agentId = sumDocs (Fin 0) (dailyDocs db now agentId)"

text \<open>
  \<^verbatim>\<open>evaluateTransaction\<close>. The two ways the source prints a number into the reason,
  \<^verbatim>\<open>${x}\<close> and \<^verbatim>\<open>x.toFixed(4)\<close>, are the arguments \<open>str\<close> and \<open>toFixed\<close>; \<open>now\<close> is the
  clock read by \<^verbatim>\<open>getDailySpending\<close>.
\<close>

definition evaluateTransaction ::
  "(number \<Rightarrow> string) \<Rightarrow> (number \<Rightarrow> string) \<Rightarrow> Db \<Rightarrow> time \<Rightarrow> docId \<Rightarrow> number
     \<Rightarrow> string option \<Rightarrow> PolicyEvaluation" where
  "evaluateTransaction str toFixed db now agentId txAmount programId =
     (case loadPolicy db agentId of
        None \<Rightarrow>
          \<lparr>autoApproved = False,
           reason = ''No active spending policy found. Human approval required.''\<rparr>
      | Some policy \<Rightarrow>
          if gt txAmount (perTxLimitSol policy) then
            \<lparr>autoApproved = False,
             reason = ''Transaction amount '' @ str txAmount @ '' SOL exceeds per-tx limit of ''
                        @ str (perTxLimitSol policy) @ '' SOL.''\<rparr>
          else
            let dailySpent = getDailySpending db now agentId in
            if gt (add dailySpent txAmount) (dailyLimitSol policy) then
              \<lparr>autoApproved = False,
               reason = ''Daily spending would reach '' @ toFixed (add dailySpent txAmount)
                          @ '' SOL, exceeding daily limit of '' @ str (dailyLimitSol policy)
                          @ '' SOL.''\<rparr>
            else if truthy programId \<and> length (allowlistedPrograms policy) > 0
                    \<and> the programId \<notin> set (allowlistedPrograms policy) then
              \<lparr>autoApproved = False,
               reason = ''Program '' @ the programId @ '' is not in the allowlisted programs.''\<rparr>
            else if gt txAmount (requireApprovalAbove policy) then
              \<lparr>autoApproved = False,
               reason = ''Transaction amount '' @ str txAmount
                          @ '' SOL exceeds approval threshold of ''
                          @ str (requireApprovalAbove policy) @ '' SOL.''\<rparr>
            else
              \<lparr>autoApproved = True,
               reason = ''Transaction within policy limits. Auto-approved.''\<rparr>)"

section \<open>Agent REST API (approvalApi.ts)\<close>

text \<open>\<^verbatim>\<open>...(x && { field: x })\<close>: the field is written only for a truthy \<open>x\<close>.\<close>

definition whenTruthy :: "string option \<Rightarrow> string option" where
  "whenTruthy x = (if truthy x then x else None)"

text \<open>The body of a response; the status code travels with it.\<close>

datatype ResBody =
    ErrorBody string
  | Registered docId string string
  | ApprovalCreated docId ApprovalStatus bool string
  | ApprovalStatusBody docId ApprovalStatus time time "time option option"

type_synonym Response = "nat \<times> ResBody"

subsection \<open>sendPushToOwner\<close>

text \<open>
  What the messaging service answers (\<open>SendFailed\<close> carries \<^verbatim>\<open>error.code\<close>), and whether
  the read of the owner's document and the removal of a stale token reject. The title
  and the text of the message leave the store as it is and are not arguments here.
  The result is \<open>None\<close> when the call rejects.
\<close>

datatype FcmOutcome = Delivered | SendFailed string

record PushEnv =
  userGetFails :: bool
  fcmOutcome :: FcmOutcome
  tokenDeleteFails :: bool

definition sendPushToOwner :: "PushEnv \<Rightarrow> Db \<Rightarrow> docId \<Rightarrow> Db option" where
  "sendPushToOwner env db owner =
     (if userGetFails env then None
      else case find (\<lambda>u. u_id u = owner) (users db) of
        None \<Rightarrow> Some db
      | Some user \<Rightarrow>
          if \<not> truthy (fcmToken user) \<or> \<not> notificationsEnabled user then Some db
          else case fcmOutcome env of
            Delivered \<Rightarrow> Some db
          | SendFailed code \<Rightarrow>
              if code = ''messaging/registration-token-not-registered''
                 \<or> code = ''messaging/invalid-registration-token''
              then (if tokenDeleteFails env then None
                    else Some (db\<lparr>users :=
                           updateDoc (\<lambda>u. u_id u = owner) (\<lambda>u. u\<lparr>fcmToken := None\<rparr>)
                             (users db)\<rparr>))
              else Some db)"

subsection \<open>POST /api/agents/register\<close>

text \<open>A required field that is missing and one that is the empty string are both falsy;
  both are the empty string here.\<close>

record RegisterBody =
  r_name :: string
  r_walletAddress :: string
  r_description :: "string option"
  r_ownerId :: string

text \<open>The clock, the two generated document ids, the generated key, and the two awaited
  calls that can reject.\<close>

record RegisterEnv =
  regNow :: time
  agentRefId :: docId
  policyRefId :: docId
  generatedApiKey :: string
  ownerGetFails :: bool
  commitFails :: bool

text \<open>\<^verbatim>\<open>/^[1-9A-HJ-NP-Za-km-z]{32,44}$/\<close>\<close>

definition isBase58Char :: "char \<Rightarrow> bool" where
  "isBase58Char c \<longleftrightarrow>
     c \<in> set ''123456789ABCDEFGHJKLMNPQRSTUVWXYZabcdefghijkmnopqrstuvwxyz''"

definition validWalletAddress :: "string \<Rightarrow> bool" where
  "validWalletAddress s \<longleftrightarrow> 32 \<le> length s \<and> length s \<le> 44 \<and> list_all isBase58Char s"

text \<open>\<^verbatim>\<open>FieldValue.arrayUnion\<close>\<close>

definition arrayUnion :: "'a list \<Rightarrow> 'a \<Rightarrow> 'a list" where
  "arrayUnion xs x = (if x \<in> set xs then xs else xs @ [x])"

definition agentData :: "(string \<Rightarrow> string) \<Rightarrow> RegisterEnv \<Rightarrow> RegisterBody \<Rightarrow> Agent" where
  "agentData hashApiKey env body =
     \<lparr>agent_id = agentRefId env,
      agent_name = r_name body,
      walletAddress = r_walletAddress body,
      agent_description = (case r_description body of None \<Rightarrow> [] | Some d \<Rightarrow> d),
      agent_status = Active,
      apiKeyHash = hashApiKey (generatedApiKey env),
      agent_createdAt = regNow env,
      lastSeenAt = regNow env,
      ownerId = r_ownerId body\<rparr>"

definition defaultPolicy :: "RegisterEnv \<Rightarrow> SpendingPolicy" where
  "defaultPolicy env =
     \<lparr>p_id = policyRefId env,
      p_agentId = agentRefId env,
      dailyLimitSol = literal 1.0,
      perTxLimitSol = literal 0.5,
      allowlistedPrograms = [],
      requireApprovalAbove = literal 0.1,
      isActive = True,
      updatedAt = regNow env\<rparr>"

text \<open>The handler. \<open>hashApiKey\<close> is SHA-256 in the source; nothing here depends on which
  function it is. The three writes are one batch: they are applied together or, when the
  commit rejects, not at all.\<close>

definition registerAgent ::
  "(string \<Rightarrow> string) \<Rightarrow> RegisterEnv \<Rightarrow> Db \<Rightarrow> RegisterBody \<Rightarrow> Db \<times> Response" where
  "registerAgent hashApiKey env db body =
     (if r_name body = [] \<or> r_walletAddress body = [] \<or> r_ownerId body = [] then
        (db, 400, ErrorBody ''Missing required fields: name, walletAddress, ownerId'')
      else if \<not> validWalletAddress (r_walletAddress body) then
        (db, 400, ErrorBody ''Invalid Solana wallet address format'')
      else if ownerGetFails env then
        (db, 500, ErrorBody ''Internal server error'')
      else if find (\<lambda>u. u_id u = r_ownerId body) (users db) = None then
        (db, 404, ErrorBody ''Owner user not found'')
      else if commitFails env then
        (db, 500, ErrorBody ''Internal server error'')
      else
        (db\<lparr>agents := agents db @ [agentData hashApiKey env body],
            policies := policies db @ [defaultPolicy env],
            users := updateDoc (\<lambda>u. u_id u = r_ownerId body)
                       (\<lambda>u. u\<lparr>agentIds := arrayUnion (agentIds u) (agentRefId env)\<rparr>)
                       (users db)\<rparr>,
         201,
         Registered (agentRefId env) (generatedApiKey env)
           ''Store this API key securely. It will not be shown again.''))"

subsection \<open>POST /api/approvals/request\<close>

record ApprovalRequestBody =
  b_description :: string
  b_txType :: string
  b_estimatedSolCost :: "number option"
  b_targetProgram :: "string option"
  b_targetAddress :: "string option"
  b_amount :: "number option"
  b_tokenSymbol :: "string option"
  expiresInMinutes :: "number option"

text \<open>The clock as \<^verbatim>\<open>getDailySpending\<close> reads it and as the handler reads it afterwards,
  the generated document id, and the awaited calls that can reject.\<close>

record ApprovalEnv =
  evalNow :: time
  reqNow :: time
  approvalRefId :: docId
  evaluateFails :: bool
  setFails :: bool
  push :: PushEnv

definition approvalData ::
  "ApprovalEnv \<Rightarrow> Agent \<Rightarrow> ApprovalRequestBody \<Rightarrow> PolicyEvaluation \<Rightarrow> time \<Rightarrow> ApprovalRequest"
  where
  "approvalData env agent body evaluation expires =
     \<lparr>a_id = approvalRefId env,
      a_agentId = agent_id agent,
      agentName = agent_name agent,
      a_description = b_description body,
      a_status = (if autoApproved evaluation then Approved else Pending),
      createdAt = reqNow env,
      expiresAt = expires,
      respondedAt = (if autoApproved evaluation then Some (reqNow env) else None),
      txType = b_txType body,
      estimatedSolCost = the (b_estimatedSolCost body),
      targetProgram = whenTruthy (b_targetProgram body),
      targetAddress = whenTruthy (b_targetAddress body),
      amount = b_amount body,
      tokenSymbol = whenTruthy (b_tokenSymbol body),
      policyEvaluation = reason evaluation\<rparr>"

text \<open>The handler, after \<^verbatim>\<open>authenticateAgent\<close> has put the agent into \<^verbatim>\<open>res.locals\<close>.
  Every exception inside the \<^verbatim>\<open>try\<close> is answered with 500; one of them is the
  \<^verbatim>\<open>RangeError\<close> of \<^verbatim>\<open>expiresAt.toISOString()\<close> on an invalid date.\<close>

definition requestApproval ::
  "(number \<Rightarrow> string) \<Rightarrow> (number \<Rightarrow> string) \<Rightarrow> ApprovalEnv \<Rightarrow> Db \<Rightarrow> Agent
     \<Rightarrow> ApprovalRequestBody \<Rightarrow> Db \<times> Response" where
  "requestApproval str toFixed env db agent body =
     (if b_description body = [] \<or> b_txType body = [] \<or> b_estimatedSolCost body = None then
        (db, 400, ErrorBody ''Missing required fields: description, txType, estimatedSolCost'')
      else if lt (the (b_estimatedSolCost body)) (literal 0) then
        (db, 400, ErrorBody ''estimatedSolCost must be non-negative'')
      else if evaluateFails env then
        (db, 500, ErrorBody ''Internal server error'')
      else
        let evaluation =
              evaluateTransaction str toFixed db (evalNow env) (agent_id agent)
                (the (b_estimatedSolCost body)) (b_targetProgram body);
            expiresInMs =
              mul (mul (case expiresInMinutes body of None \<Rightarrow> literal 15 | Some m \<Rightarrow> m)
                       60) 1000
        in case TimeClip (add (getTime (reqNow env)) expiresInMs) of
             None \<Rightarrow> (db, 500, ErrorBody ''Internal server error'')
           | Some expires \<Rightarrow>
               if setFails env then (db, 500, ErrorBody ''Internal server error'')
               else
                 let doc = approvalData env agent body evaluation expires;
                     db1 = db\<lparr>approvals := approvals db @ [doc]\<rparr>;
                     created = (201, ApprovalCreated (approvalRefId env) (a_status doc)
                                       (autoApproved evaluation) (reason evaluation))
                 in if \<not> autoApproved evaluation then
                      (case sendPushToOwner (push env) db1 (ownerId agent) of
                         None \<Rightarrow> (db1, 500, ErrorBody ''Internal server error'')
                       | Some db2 \<Rightarrow> (db2, created))
                    else (db1, created))"

subsection \<open>GET /api/approvals/:id/status\<close>

record StatusEnv =
  pollNow :: time
  getFails :: bool
  updateFails :: bool

text \<open>The handler; \<open>caller\<close> is \<^verbatim>\<open>res.locals.agentId\<close>. In the last component of the body
  \<open>None\<close> is a response without the field \<^verbatim>\<open>respondedAt\<close> and \<open>Some None\<close> is
  \<^verbatim>\<open>respondedAt: null\<close>.\<close>

definition getApprovalStatus :: "StatusEnv \<Rightarrow> Db \<Rightarrow> docId \<Rightarrow> docId \<Rightarrow> Db \<times> Response" where
  "getApprovalStatus env db caller approvalId =
     (if getFails env then (db, 500, ErrorBody ''Internal server error'')
      else case find (\<lambda>a. a_id a = approvalId) (approvals db) of
        None \<Rightarrow> (db, 404, ErrorBody ''Approval request not found'')
      | Some data \<Rightarrow>
          if a_agentId data \<noteq> caller then
            (db, 403, ErrorBody ''Not authorized to view this approval'')
          else if a_status data = Pending \<and> expiresAt data < pollNow env then
            (if updateFails env then (db, 500, ErrorBody ''Internal server error'')
             else
               (db\<lparr>approvals :=
                     updateDoc (\<lambda>a. a_id a = approvalId) (\<lambda>a. a\<lparr>a_status := Expired\<rparr>)
                       (approvals db)\<rparr>,
                200,
                ApprovalStatusBody approvalId Expired (createdAt data) (expiresAt data) None))
          else
            (db, 200,
             ApprovalStatusBody approvalId (a_status data) (createdAt data) (expiresAt data)
               (Some (respondedAt data))))"

section \<open>Indexer webhook (webhookHandler.ts)\<close>

text \<open>\<^verbatim>\<open>mapHeliusType\<close>. \<^verbatim>\<open>String.prototype.toUpperCase\<close> is the argument \<open>toUpperCase\<close>: it
  follows the case mappings of the Unicode standard, which are no part of the program.\<close>

definition mapHeliusType :: "(string \<Rightarrow> string) \<Rightarrow> string \<Rightarrow> TransactionType" where
  "mapHeliusType toUpperCase heliusType =
     (let normalized = toUpperCase heliusType in
      if normalized = ''TRANSFER'' \<or> normalized = ''TOKEN_TRANSFER'' then Transfer
      else if normalized = ''SWAP'' then Swap
      else if normalized = ''STAKE_SOL'' \<or> normalized = ''STAKE_TOKEN'' then Stake
      else if normalized = ''UNKNOWN'' then UnknownType
      else ProgramInteraction)"

text \<open>
  The fields of an event that the handler reads. The payload is parsed JSON which the
  handler takes as it comes: a field of an object is there, with a value of its declared
  type, or it is missing (\<open>None\<close>, read as \<^verbatim>\<open>undefined\<close>); for \<^verbatim>\<open>transactionError\<close>,
  declared \<^verbatim>\<open>string | null\<close>, \<open>None\<close> is also \<^verbatim>\<open>null\<close>. An element of the payload array is
  an object or \<^verbatim>\<open>null\<close> (\<open>None\<close>).
\<close>

record HeliusNativeTransfer =
  nt_toUserAccount :: "string option"
  nt_amount :: "number option"

record HeliusTokenTransfer =
  tt_toUserAccount :: "string option"
  tt_tokenAmount :: "number option"
  mint :: "string option"

record HeliusEnhancedTransaction =
  h_signature :: "string option"
  h_description :: "string option"
  h_type :: "string option"
  h_fee :: "number option"
  feePayer :: "string option"
  h_timestamp :: "number option"
  nativeTransfers :: "HeliusNativeTransfer list option"
  tokenTransfers :: "HeliusTokenTransfer list option"
  transactionError :: "string option"

text \<open>Per event: the generated id of the transaction document, the clock read for
  \<^verbatim>\<open>lastSeenAt\<close>, and whether the query on \<^verbatim>\<open>agents\<close> rejects.\<close>

record EventEnv =
  txRefId :: docId
  seenNow :: time
  agentQueryFails :: bool

text \<open>A write staged in the batch.\<close>

datatype WriteOp = UpdateLastSeen docId time | SetTransaction TransactionRecord

record NotificationInfo =
  n_agentName :: string
  n_ownerId :: docId
  txCount :: nat

text \<open>\<^verbatim>\<open>x || y\<close> on strings, for a \<open>y\<close> that may be \<^verbatim>\<open>undefined\<close> and for one that is a
  string.\<close>

definition orElse :: "string option \<Rightarrow> string option \<Rightarrow> string option" where
  "orElse x y = (if truthy x then x else y)"

definition orString :: "string option \<Rightarrow> string \<Rightarrow> string" where
  "orString x y = (case x of None \<Rightarrow> y | Some s \<Rightarrow> if s = [] then y else s)"

text \<open>
  The first part of the \<^verbatim>\<open>try\<close> block: the primary addresses and amounts and the
  document \<^verbatim>\<open>txDoc\<close>, still without \<^verbatim>\<open>agentId\<close> and \<^verbatim>\<open>id\<close>. The result is \<open>None\<close> when
  an exception is thrown: the \<^verbatim>\<open>TypeError\<close> of \<^verbatim>\<open>.length\<close> on a missing list of
  transfers and of \<^verbatim>\<open>.toUpperCase()\<close> on a missing type, the \<^verbatim>\<open>RangeError\<close> of
  \<^verbatim>\<open>new Date(tx.timestamp * 1000).toISOString()\<close> on an invalid date. \<open>serverTime\<close> is the
  value the store puts in place of \<^verbatim>\<open>FieldValue.serverTimestamp()\<close>.
\<close>

definition buildTxDoc ::
  "(string \<Rightarrow> string) \<Rightarrow> time \<Rightarrow> HeliusEnhancedTransaction \<Rightarrow> TransactionRecord option" where
  "buildTxDoc toUpperCase serverTime tx =
     (case nativeTransfers tx of None \<Rightarrow> None | Some natives \<Rightarrow>
      case tokenTransfers tx of None \<Rightarrow> None | Some tokens \<Rightarrow>
      case h_type tx of None \<Rightarrow> None | Some heliusType \<Rightarrow>
      case TimeClip (mul (orNaN (h_timestamp tx)) 1000) of None \<Rightarrow> None | Some date \<Rightarrow>
        let from = feePayer tx;
            to0 = (case natives of [] \<Rightarrow> Some [] | primaryTransfer # _ \<Rightarrow>
                     nt_toUserAccount primaryTransfer);
            sol = (case natives of [] \<Rightarrow> literal 0 | primaryTransfer # _ \<Rightarrow>
                     over (orNaN (nt_amount primaryTransfer)) 1000000000);
            to = (case tokens of [] \<Rightarrow> to0 | primaryTokenTx # _ \<Rightarrow>
                    orElse to0 (tt_toUserAccount primaryTokenTx));
            tokAmount = (case tokens of [] \<Rightarrow> None | primaryTokenTx # _ \<Rightarrow>
                           tt_tokenAmount primaryTokenTx);
            tokSymbol = (case tokens of [] \<Rightarrow> None | primaryTokenTx # _ \<Rightarrow>
                           mint primaryTokenTx)
        in Some \<lparr>tx_id = [],
                 signature = h_signature tx,
                 tx_type = mapHeliusType toUpperCase heliusType,
                 tx_description =
                   orString (h_description tx) (heliusType @ '' transaction''),
                 tx_timestamp = toISOString date,
                 tx_status = (if truthy (transactionError tx) then Failed else Success),
                 fee = Some (over (orNaN (h_fee tx)) 1000000000),
                 tx_from = from,
                 tx_to = to,
                 solAmount = Some sol,
                 tokenAmount = tokAmount,
                 tx_tokenSymbol = whenTruthy tokSymbol,
                 receivedAt = serverTime,
                 tx_agentId = None\<rparr>)"

text \<open>\<^verbatim>\<open>where("walletAddress", "in", [from, to]).limit(1)\<close>\<close>

definition matchAgent :: "Db \<Rightarrow> string option \<Rightarrow> string option \<Rightarrow> Agent option" where
  "matchAgent db from to =
     find (\<lambda>a. Some (walletAddress a) = from \<or> Some (walletAddress a) = to) (agents db)"

text \<open>The accumulation in \<^verbatim>\<open>agentNotifications\<close>.\<close>

definition accumulate ::
  "Agent \<Rightarrow> (docId \<rightharpoonup> NotificationInfo) \<Rightarrow> (docId \<rightharpoonup> NotificationInfo)" where
  "accumulate agentDoc tally =
     (case tally (agent_id agentDoc) of
        Some existing \<Rightarrow>
          tally(agent_id agentDoc \<mapsto> existing\<lparr>txCount := txCount existing + 1\<rparr>)
      | None \<Rightarrow>
          tally(agent_id agentDoc \<mapsto>
            \<lparr>n_agentName = agent_name agentDoc, n_ownerId = ownerId agentDoc, txCount = 1\<rparr>))"

text \<open>How the \<^verbatim>\<open>try\<close> block ends for one event: an exception was thrown, or the end was
  reached; either way with the batch and the tally as they are then.\<close>

datatype 'a Attempt = Thrown 'a | Completed 'a

fun after :: "'a Attempt \<Rightarrow> 'a" where
  "after (Thrown st) = st"
| "after (Completed st) = st"

text \<open>The last statements of the block, \<^verbatim>\<open>txDoc.id = txRef.id; batch.set(txRef, txDoc)\<close>.
  The store refuses a document with a field that is \<^verbatim>\<open>undefined\<close>: \<^verbatim>\<open>batch.set\<close> throws and
  stages nothing when the event had no signature.\<close>

definition setTransaction ::
  "EventEnv \<Rightarrow> TransactionRecord \<Rightarrow> WriteOp list \<times> (docId \<rightharpoonup> NotificationInfo)
     \<Rightarrow> (WriteOp list \<times> (docId \<rightharpoonup> NotificationInfo)) Attempt" where
  "setTransaction env txDoc st =
     (if signature txDoc = None then Thrown st
      else Completed (fst st @ [SetTransaction (txDoc\<lparr>tx_id := txRefId env\<rparr>)], snd st))"

text \<open>
  The body of the \<^verbatim>\<open>try\<close> for one event that is an object, on the batch and the tally
  built so far. The query throws when one of the two addresses is \<^verbatim>\<open>undefined\<close>, which
  the store does not take as a value, and it may reject.
\<close>

definition processTx ::
  "(string \<Rightarrow> string) \<Rightarrow> time \<Rightarrow> Db \<Rightarrow> EventEnv \<Rightarrow> HeliusEnhancedTransaction
     \<Rightarrow> WriteOp list \<times> (docId \<rightharpoonup> NotificationInfo)
     \<Rightarrow> (WriteOp list \<times> (docId \<rightharpoonup> NotificationInfo)) Attempt" where
  "processTx toUpperCase serverTime db env tx st =
     (case buildTxDoc toUpperCase serverTime tx of
        None \<Rightarrow> Thrown st
      | Some txDoc \<Rightarrow>
          if tx_from txDoc = None \<or> tx_to txDoc = None \<or> agentQueryFails env then Thrown st
          else case matchAgent db (tx_from txDoc) (tx_to txDoc) of
            None \<Rightarrow> setTransaction env txDoc st
          | Some agentDoc \<Rightarrow>
              setTransaction env (txDoc\<lparr>tx_agentId := Some (agent_id agentDoc)\<rparr>)
                (fst st @ [UpdateLastSeen (agent_id agentDoc) (seenNow env)],
                 accumulate agentDoc (snd st)))"

text \<open>
  The loop \<^verbatim>\<open>for (const tx of transactions) { try { ... } catch (err) { log } }\<close>. The
  \<^verbatim>\<open>catch\<close> block reads \<^verbatim>\<open>tx.signature\<close> for the log entry. For an element that is
  \<^verbatim>\<open>null\<close> the \<^verbatim>\<open>try\<close> block throws at \<^verbatim>\<open>tx.feePayer\<close> and the \<^verbatim>\<open>catch\<close> block throws in
  turn: the exception leaves the loop and the handler (\<open>None\<close>).
\<close>

fun processAll ::
  "(string \<Rightarrow> string) \<Rightarrow> time \<Rightarrow> Db \<Rightarrow> (EventEnv \<times> HeliusEnhancedTransaction option) list
     \<Rightarrow> WriteOp list \<times> (docId \<rightharpoonup> NotificationInfo)
     \<Rightarrow> (WriteOp list \<times> (docId \<rightharpoonup> NotificationInfo)) option" where
  "processAll toUpperCase serverTime db [] st = Some st"
| "processAll toUpperCase serverTime db ((env, None) # es) st = None"
| "processAll toUpperCase serverTime db ((env, Some tx) # es) st =
     processAll toUpperCase serverTime db es
       (after (processTx toUpperCase serverTime db env tx st))"

text \<open>\<^verbatim>\<open>batch.commit()\<close> applies the staged writes together.\<close>

fun applyWrite :: "Db \<Rightarrow> WriteOp \<Rightarrow> Db" where
  "applyWrite db (UpdateLastSeen i t) =
     db\<lparr>agents := updateDoc (\<lambda>a. agent_id a = i) (\<lambda>a. a\<lparr>lastSeenAt := t\<rparr>) (agents db)\<rparr>"
| "applyWrite db (SetTransaction d) = db\<lparr>transactions := transactions db @ [d]\<rparr>"

definition commit :: "WriteOp list \<Rightarrow> Db \<Rightarrow> Db" where
  "commit batch db = foldl applyWrite db batch"

text \<open>
  The handler from the creation of the batch to its commit. \<open>None\<close>: an exception left
  the loop, so that \<^verbatim>\<open>batch.commit()\<close> is not reached, or the commit rejected; nothing is
  written and the handler does not answer.
\<close>

definition ingest ::
  "(string \<Rightarrow> string) \<Rightarrow> bool \<Rightarrow> time \<Rightarrow> Db
     \<Rightarrow> (EventEnv \<times> HeliusEnhancedTransaction option) list
     \<Rightarrow> (Db \<times> (docId \<rightharpoonup> NotificationInfo)) option" where
  "ingest toUpperCase batchCommitFails serverTime db events =
     (case processAll toUpperCase serverTime db events ([], Map.empty) of
        None \<Rightarrow> None
      | Some st \<Rightarrow> if batchCommitFails then None else Some (commit (fst st) db, snd st))"

section \<open>The owner's response (mobile client)\<close>

text \<open>The two values \<^verbatim>\<open>respondToApproval\<close> accepts for \<^verbatim>\<open>status\<close>.\<close>

datatype Decision = Approve | Deny

fun decided :: "Decision \<Rightarrow> ApprovalStatus" where
  "decided Approve = Approved"
| "decided Deny = Denied"

text \<open>\<^verbatim>\<open>respondToApproval\<close> (services/firebase.ts): one \<^verbatim>\<open>updateDoc\<close>, which rejects when
  the document does not exist or the write fails (\<open>None\<close>).\<close>

definition respondToApproval :: "bool \<Rightarrow> time \<Rightarrow> Db \<Rightarrow> docId \<Rightarrow> Decision \<Rightarrow> Db option" where
  "respondToApproval writeFails now db approvalId status =
     (if writeFails \<or> find (\<lambda>a. a_id a = approvalId) (approvals db) = None then None
      else Some (db\<lparr>approvals :=
                   updateDoc (\<lambda>a. a_id a = approvalId)
                     (\<lambda>a. a\<lparr>a_status := decided status, respondedAt := Some now\<rparr>)
                     (approvals db)\<rparr>))"

text \<open>\<^verbatim>\<open>updateApproval\<close> (store/useAgentStore.ts) on the list \<^verbatim>\<open>pendingApprovals\<close>.\<close>

definition updateApproval ::
  "time \<Rightarrow> docId \<Rightarrow> ApprovalStatus \<Rightarrow> ApprovalRequest list \<Rightarrow> ApprovalRequest list" where
  "updateApproval now approvalId status pendingApprovals =
     map (\<lambda>a. if a_id a = approvalId then a\<lparr>a_status := status, respondedAt := Some now\<rparr>
               else a) pendingApprovals"

text \<open>ApprovalScreen.tsx: the cards shown, each with its approve and deny buttons.\<close>

definition displayApprovals :: "ApprovalRequest list \<Rightarrow> ApprovalRequest list" where
  "displayApprovals pendingApprovals = filter (\<lambda>a. a_status a = Pending) pendingApprovals"

text \<open>ApprovalCard.tsx: the card's timer sets \<^verbatim>\<open>timeLeft\<close> to \<^verbatim>\<open>'Expired'\<close> when a tick finds
  \<^verbatim>\<open>expires - now <= 0\<close>, and both buttons are disabled while it says so. \<open>lastTick\<close> is
  the clock at the last tick, \<open>None\<close> before the first one.\<close>

definition isExpired :: "time option \<Rightarrow> ApprovalRequest \<Rightarrow> bool" where
  "isExpired lastTick approval =
     (case lastTick of None \<Rightarrow> False | Some now \<Rightarrow> expiresAt approval - now \<le> 0)"

definition isDemo :: "docId \<Rightarrow> bool" where
  "isDemo approvalId \<longleftrightarrow> take 5 approvalId = ''demo_''"

datatype Alert = AlertDone | AlertError

record RespondEnv =
  writeFails :: bool
  respondNow :: time
  storeNow :: time

text \<open>\<^verbatim>\<open>handleApprove\<close> and \<^verbatim>\<open>handleDeny\<close> (ApprovalScreen.tsx), on the store and the
  client's list; the \<^verbatim>\<open>catch\<close> shows the error alert and changes nothing.\<close>

definition handleApprove ::
  "RespondEnv \<Rightarrow> Db \<times> ApprovalRequest list \<Rightarrow> docId \<Rightarrow> (Db \<times> ApprovalRequest list) \<times> Alert"
  where
  "handleApprove env st approvalId =
     (if \<not> isDemo approvalId then
        (case respondToApproval (writeFails env) (respondNow env) (fst st) approvalId Approve of
           None \<Rightarrow> (st, AlertError)
         | Some db' \<Rightarrow>
             ((db', updateApproval (storeNow env) approvalId Approved (snd st)), AlertDone))
      else ((fst st, updateApproval (storeNow env) approvalId Approved (snd st)), AlertDone))"

definition handleDeny ::
  "RespondEnv \<Rightarrow> Db \<times> ApprovalRequest list \<Rightarrow> docId \<Rightarrow> (Db \<times> ApprovalRequest list) \<times> Alert"
  where
  "handleDeny env st approvalId =
     (if \<not> isDemo approvalId then
        (case respondToApproval (writeFails env) (respondNow env) (fst st) approvalId Deny of
           None \<Rightarrow> (st, AlertError)
         | Some db' \<Rightarrow>
             ((db', updateApproval (storeNow env) approvalId Denied (snd st)), AlertDone))
      else ((fst st, updateApproval (storeNow env) approvalId Denied (snd st)), AlertDone))"

section \<open>The specification's wording\<close>

text \<open>\<open>x \<le> y\<close> on numbers; like every comparison it is false when one side is NaN.\<close>

definition le :: "number \<Rightarrow> number \<Rightarrow> bool" where
  "le x y \<longleftrightarrow> x \<noteq> NaN \<and> y \<noteq> NaN \<and> \<not> gt x y"

text \<open>The start of the UTC day of \<open>now\<close>: the last multiple of a day not after \<open>now\<close>.\<close>

definition startOfUtcDay :: "time \<Rightarrow> time" where
  "startOfUtcDay now = (now div 86400000) * 86400000"

text \<open>What a record adds to the daily spend: its amount plus its fee, a missing one
  counting as zero.\<close>

definition spend :: "TransactionRecord \<Rightarrow> number" where
  "spend d = add (orZero (solAmount d)) (orZero (fee d))"

text \<open>A record counts for the day of \<open>now\<close>: its timestamp is not before the ISO-8601
  string of the start of that UTC day, as strings compare.\<close>

definition stampedToday :: "time \<Rightarrow> TransactionRecord \<Rightarrow> bool" where
  "stampedToday now d \<longleftrightarrow> stringGe (tx_timestamp d) (toISOString (startOfUtcDay now))"

text \<open>The daily spend as the specification words it: the sum of amount plus fee over the
  agent's successful records of the current UTC day, added up one after the other.\<close>

definition dailySpentSpec :: "Db \<Rightarrow> time \<Rightarrow> docId \<Rightarrow> number" where
  "dailySpentSpec db now agentId =
     foldl add (Fin 0)
       (map spend [d \<leftarrow> transactions db. tx_agentId d = Some agentId \<and> tx_status d = Success
                                        \<and> stampedToday now d])"

text \<open>The record an event contributes to the ledger: none when its processing raises,
  otherwise its normalized document with the generated id, stamped with the matched
  agent when there is one.\<close>

definition recordOf ::
  "(string \<Rightarrow> string) \<Rightarrow> time \<Rightarrow> Db \<Rightarrow> EventEnv \<times> HeliusEnhancedTransaction option
     \<Rightarrow> TransactionRecord option" where
  "recordOf toUpperCase serverTime db e =
     (case snd e of
        None \<Rightarrow> None
      | Some tx \<Rightarrow>
          case buildTxDoc toUpperCase serverTime tx of
            None \<Rightarrow> None
          | Some txDoc \<Rightarrow>
              if tx_from txDoc = None \<or> tx_to txDoc = None \<or> agentQueryFails (fst e)
                 \<or> signature txDoc = None
              then None
              else Some (txDoc\<lparr>tx_agentId :=
                                 map_option agent_id
                                   (matchAgent db (tx_from txDoc) (tx_to txDoc)),
                               tx_id := txRefId (fst e)\<rparr>))"







text \<open>The time to live a request asks for, in minutes, and a number of milliseconds cut
  to a whole one, towards zero.\<close>

definition requestedTtl :: "ApprovalRequestBody \<Rightarrow> number" where
  "requestedTtl body = (case expiresInMinutes body of None \<Rightarrow> Fin 15 | Some m \<Rightarrow> m)"

definition wholeMs :: "real \<Rightarrow> time" where
  "wholeMs v = (if v < 0 then \<lceil>v\<rceil> else \<lfloor>v\<rfloor>)"

text \<open>What a read may do to a stored request: nothing, or move it from pending to
  expired.\<close>

definition forwardOnly :: "ApprovalRequest \<Rightarrow> ApprovalRequest \<Rightarrow> bool" where
  "forwardOnly a a' \<longleftrightarrow> a' = a \<or> (a_status a = Pending \<and> a' = a\<lparr>a_status := Expired\<rparr>)"

text \<open>The screen offers a response to a request: its card is shown and the buttons of
  the card are enabled.\<close>

definition offered :: "time option \<Rightarrow> ApprovalRequest list \<Rightarrow> ApprovalRequest \<Rightarrow> bool" where
  "offered lastTick pendingApprovals a \<longleftrightarrow>
     a \<in> set (displayApprovals pendingApprovals) \<and> \<not> isExpired lastTick a"

text \<open>A sequence of polls, each with its environment, its caller and the id it asks for.\<close>

fun pollAll :: "Db \<Rightarrow> (StatusEnv \<times> docId \<times> docId) list \<Rightarrow> Db" where
  "pollAll db [] = db"
| "pollAll db (p # ps) =
     pollAll (fst (getApprovalStatus (fst p) db (fst (snd p)) (snd (snd p)))) ps"

text \<open>A history of accesses to the stored requests, made of the two operations of the
  source that write to a stored request: a poll, with its environment, its caller and
  the id it asks for, and a response of the owner, with whether its write fails, its
  time, the id and the decision.\<close>

datatype Access = Poll StatusEnv docId docId | Respond bool time docId Decision

fun access :: "Db \<Rightarrow> Access \<Rightarrow> Db" where
  "access db (Poll env caller i) = fst (getApprovalStatus env db caller i)"
| "access db (Respond fails now i decision) =
     (case respondToApproval fails now db i decision of None \<Rightarrow> db | Some db' \<Rightarrow> db')"

definition history :: "Db \<Rightarrow> Access list \<Rightarrow> Db" where
  "history db accesses = foldl access db accesses"

text \<open>An access writes a response to the request \<open>i\<close>.\<close>

fun respondsTo :: "docId \<Rightarrow> Access \<Rightarrow> bool" where
  "respondsTo i (Poll env caller j) = False"
| "respondsTo i (Respond fails now j decision) = (j = i \<and> \<not> fails)"

text \<open>The transaction document a staged write sets, if it sets one.\<close>

definition stagedTx :: "WriteOp \<Rightarrow> TransactionRecord option" where
  "stagedTx w = (case w of SetTransaction d \<Rightarrow> Some d | UpdateLastSeen i t \<Rightarrow> None)"

section \<open>Example data\<close>

definition examplePolicy :: SpendingPolicy where
  "examplePolicy =
     \<lparr>p_id = ''policy1'', p_agentId = ''agent1'', dailyLimitSol = Fin 1,
      perTxLimitSol = Fin (1 / 2), allowlistedPrograms = [], requireApprovalAbove = Fin (1 / 8), isActive = True,
      updatedAt = 1700000000000\<rparr>"

definition exampleTx :: "number \<Rightarrow> time \<Rightarrow> TransactionRecord" where
  "exampleTx a t =
     \<lparr>tx_id = ''tx1'', signature = Some ''sig1'', tx_type = Transfer,
      tx_description = ''TRANSFER transaction'', tx_timestamp = toISOString t,
      tx_status = Success, fee = Some (Fin 0), tx_from = Some ''walletA'',
      tx_to = Some ''walletB'', solAmount = Some a,
      tokenAmount = None, tx_tokenSymbol = None, receivedAt = t, tx_agentId = Some ''agent1''\<rparr>"

definition exampleAgent :: Agent where
  "exampleAgent =
     \<lparr>agent_id = ''agent1'', agent_name = ''Trading Bot'', walletAddress = ''walletA'',
      agent_description = [], agent_status = Active, apiKeyHash = ''h'',
      agent_createdAt = 1700000000000, lastSeenAt = 1700000000000, ownerId = ''owner1''\<rparr>"

definition exampleUser :: AppUser where
  "exampleUser =
     \<lparr>u_id = ''owner1'', agentIds = [''agent1''], notificationsEnabled = True,
      fcmToken = Some ''token1''\<rparr>"

definition exampleDb :: Db where
  "exampleDb =
     \<lparr>agents = [exampleAgent], policies = [examplePolicy], approvals = [],
      transactions = [exampleTx (Fin (3 / 4)) 1700000100000], users = [exampleUser]\<rparr>"

text \<open>The same store without prior spending and with one allowlisted program.\<close>

definition allowlistDb :: Db where
  "allowlistDb =
     exampleDb\<lparr>policies := [examplePolicy\<lparr>allowlistedPrograms := [''JUP6'']\<rparr>],
               transactions := []\<rparr>"

text \<open>A stand-in for the printing of a number.\<close>

definition fmt :: "number \<Rightarrow> string" where
  "fmt x = ''#''"

definition exampleRegisterBody :: RegisterBody where
  "exampleRegisterBody =
     \<lparr>r_name = ''Yield Farmer'', r_walletAddress = ''JUP6LkbZbjS1jKKwapdHNy74zcZ3tLUZoi5QNyVTaV4'',
      r_description = None, r_ownerId = ''owner1''\<rparr>"

definition exampleRegisterEnv :: RegisterEnv where
  "exampleRegisterEnv =
     \<lparr>regNow = 1700000300000, agentRefId = ''agent2'', policyRefId = ''policy2'',
      generatedApiKey = ''key'', ownerGetFails = False, commitFails = False\<rparr>"

definition exampleBody :: "number \<Rightarrow> number option \<Rightarrow> ApprovalRequestBody" where
  "exampleBody cost ttl =
     \<lparr>b_description = ''Swap for USDC'', b_txType = ''swap'', b_estimatedSolCost = Some cost,
      b_targetProgram = None, b_targetAddress = None, b_amount = None, b_tokenSymbol = None,
      expiresInMinutes = ttl\<rparr>"

definition exampleEnv :: "FcmOutcome \<Rightarrow> ApprovalEnv" where
  "exampleEnv fcm =
     \<lparr>evalNow = 1700000200000, reqNow = 1700000200005, approvalRefId = ''approval1'',
      evaluateFails = False, setFails = False,
      push = \<lparr>userGetFails = False, fcmOutcome = fcm, tokenDeleteFails = False\<rparr>\<rparr>"

text \<open>Three requests: one with a time to live of 1/131072 minutes, one whose push the
  messaging service rejects, one during which the read of the owner's document rejects.\<close>

definition tinyTtlApproval :: ApprovalRequest where
  "tinyTtlApproval =
     last (approvals (fst (requestApproval fmt fmt (exampleEnv Delivered) exampleDb exampleAgent
                             (exampleBody (Fin (1 / 16)) (Some (Fin (1 / 131072)))))))"

definition pushFailureRequest :: "Db \<times> Response" where
  "pushFailureRequest =
     requestApproval fmt fmt (exampleEnv (SendFailed ''messaging/internal-error'')) exampleDb
       exampleAgent (exampleBody (Fin (1 / 2)) None)"

definition ownerLookupFailureRequest :: "Db \<times> Response" where
  "ownerLookupFailureRequest =
     requestApproval fmt fmt
       ((exampleEnv Delivered)\<lparr>push := \<lparr>userGetFails = True, fcmOutcome = Delivered,
                                          tokenDeleteFails = False\<rparr>\<rparr>)
       exampleDb exampleAgent (exampleBody (Fin (1 / 2)) None)"

text \<open>A pending request with a time to live of one minute, the store holding it, the
  store after its expiry was observed, the store after the owner denied it, and the
  environments of a poll and of a response at a given time.\<close>

definition expiringApproval :: ApprovalRequest where
  "expiringApproval =
     approvalData (exampleEnv Delivered) exampleAgent (exampleBody (Fin (1 / 2)) (Some (Fin 1)))
       \<lparr>autoApproved = False,
        reason = ''Daily spending would reach # SOL, exceeding daily limit of # SOL.''\<rparr>
       1700000260005"

definition pendingDb :: Db where
  "pendingDb = exampleDb\<lparr>approvals := [expiringApproval]\<rparr>"

definition pollAt :: "time \<Rightarrow> StatusEnv" where
  "pollAt t = \<lparr>pollNow = t, getFails = False, updateFails = False\<rparr>"

definition expiredDb :: Db where
  "expiredDb = exampleDb\<lparr>approvals := [expiringApproval\<lparr>a_status := Expired\<rparr>]\<rparr>"

definition deniedDb :: Db where
  "deniedDb =
     exampleDb\<lparr>approvals :=
                 [expiringApproval\<lparr>a_status := Denied, respondedAt := Some 1700000230000\<rparr>]\<rparr>"

definition respondAt :: "time \<Rightarrow> RespondEnv" where
  "respondAt t = \<lparr>writeFails = False, respondNow = t, storeNow = t\<rparr>"

text \<open>An event: a transfer of 250000000 lamports to a wallet of no agent, with a fee of
  1953125 lamports, by a given payer at a given time in seconds; and the record an event
  of this shape yields.\<close>

definition exampleEvent :: "string \<Rightarrow> string \<Rightarrow> number option \<Rightarrow> HeliusEnhancedTransaction"
  where
  "exampleEvent sig payer ts =
     \<lparr>h_signature = Some sig, h_description = None, h_type = Some ''TRANSFER'',
      h_fee = Some (Fin 1953125), feePayer = Some payer, h_timestamp = ts,
      nativeTransfers = Some [\<lparr>nt_toUserAccount = Some ''walletC'',
                               nt_amount = Some (Fin 250000000)\<rparr>],
      tokenTransfers = Some [], transactionError = None\<rparr>"

definition eventEnv :: "docId \<Rightarrow> EventEnv" where
  "eventEnv i = \<lparr>txRefId = i, seenNow = 1700000500000, agentQueryFails = False\<rparr>"

definition exampleRecord ::
  "(string \<Rightarrow> string) \<Rightarrow> docId \<Rightarrow> string \<Rightarrow> string \<Rightarrow> time \<Rightarrow> docId option
     \<Rightarrow> TransactionRecord" where
  "exampleRecord toUpperCase i sig payer t agent =
     \<lparr>tx_id = i, signature = Some sig, tx_type = mapHeliusType toUpperCase ''TRANSFER'',
      tx_description = ''TRANSFER transaction'', tx_timestamp = toISOString t,
      tx_status = Success, fee = Some (Fin (1 / 512)), tx_from = Some payer,
      tx_to = Some ''walletC'', solAmount = Some (Fin (1 / 4)), tokenAmount = None,
      tx_tokenSymbol = None, receivedAt = 1700000500100, tx_agentId = agent\<rparr>"

text \<open>A batch of three events: one paid by the agent's wallet, one without a timestamp,
  one between wallets of no agent.\<close>

definition exampleBatch :: "(EventEnv \<times> HeliusEnhancedTransaction option) list" where
  "exampleBatch =
     [(eventEnv ''tx2'', Some (exampleEvent ''sig2'' ''walletA'' (Some (Fin 1700000400)))),
      (eventEnv ''tx3'', Some (exampleEvent ''sig3'' ''walletA'' None)),
      (eventEnv ''tx4'', Some (exampleEvent ''sig4'' ''walletZ'' (Some (Fin 1700000401))))]"

text \<open>A batch of an event paid by the agent's wallet and a \<^verbatim>\<open>null\<close>.\<close>

definition nullBatch :: "(EventEnv \<times> HeliusEnhancedTransaction option) list" where
  "nullBatch =
     [(eventEnv ''tx2'', Some (exampleEvent ''sig2'' ''walletA'' (Some (Fin 1700000400)))),
      (eventEnv ''tx3'', None)]"

text \<open>The agent's ledger with one record only, stamped at the first instant of the year
  10000, as the webhook stores an event of that time.\<close>

definition farFutureDb :: Db where
  "farFutureDb =
     exampleDb\<lparr>transactions :=
                 [exampleTx (Fin (3 / 4)) 253402300800000]\<rparr>"

text \<open>The agent's ledger with one record of the day, of an event that came without a
  fee: 1 SOL was spent, and the stored fee is NaN.\<close>

definition feeLessDb :: Db where
  "feeLessDb =
     exampleDb\<lparr>transactions :=
                 [(exampleTx (Fin 1) 1700000100000)\<lparr>fee := Some NaN\<rparr>]\<rparr>"
section \<open>Properties of the numbers\<close>

lemma pow2_powr: "pow2 k = 2 powr (real_of_int k)"
proof (cases "0 \<le> k")
  case True
  then show ?thesis
    by (simp add: pow2_def powr_realpow [symmetric])
next
  case False
  have "(2::real) powr (real_of_int k) = 2 powr (- real_of_int (- k))" by simp
  also have "\<dots> = 1 / 2 powr (real_of_int (- k))"
    by (simp only: powr_minus divide_inverse mult_1)
  also have "\<dots> = 1 / 2 ^ nat (- k)"
    using False by (simp add: powr_realpow [symmetric])
  finally show ?thesis using False by (simp add: pow2_def)
qed

lemma pow2_pos: "0 < pow2 k"
  by (simp add: pow2_powr)

lemma pow2_add: "pow2 (a + b) = pow2 a * pow2 b"
  by (simp add: pow2_powr powr_add)

lemma pow2_mono: "a \<le> b \<Longrightarrow> pow2 a \<le> pow2 b"
  by (simp add: pow2_powr)

lemma pow2_nonneg_int: "0 \<le> k \<Longrightarrow> pow2 k = of_int (2 ^ nat k)"
  by (simp add: pow2_def)

lemma roundHalfEven_of_int: "roundHalfEven (of_int n) = n"
  by (simp add: roundHalfEven_def)

lemma binade_le:
  assumes "x \<noteq> 0" and "\<bar>x\<bar> < pow2 (e + 53)" and "- 1074 \<le> e"
  shows "binade x - 52 \<le> e"
proof -
  from assms(1) have p: "0 < \<bar>x\<bar>" by simp
  from assms(2) have "\<bar>x\<bar> < 2 powr (of_int (e + 53))" by (simp only: pow2_powr)
  with p have "log 2 \<bar>x\<bar> < of_int (e + 53)"
    by (simp add: log_less_iff)
  then have "\<lfloor>log 2 \<bar>x\<bar>\<rfloor> < e + 53" by (simp only: floor_less_iff)
  with assms(3) show ?thesis by (simp add: binade_def)
qed

text \<open>A number with at most 53 significant bits and an exponent in the range of the
  format is a double: rounding leaves it as it is.\<close>

lemma round64_dyadic:
  assumes "\<bar>m\<bar> < 2 ^ 53" and "- 1074 \<le> e" and "e \<le> 971"
  shows "round64 (of_int m * pow2 e) = Fin (of_int m * pow2 e)"
proof (cases "m = 0")
  case True
  then show ?thesis by (simp add: round64_def)
next
  case False
  define x where "x = real_of_int m * pow2 e"
  from False have nz: "x \<noteq> 0"
    using pow2_pos [of e] by (simp add: x_def)
  have "\<bar>x\<bar> = real_of_int \<bar>m\<bar> * pow2 e"
    using pow2_pos [of e] by (simp add: x_def abs_mult)
  also have "\<dots> < 2 ^ 53 * pow2 e"
  proof -
    from assms(1) have "real_of_int \<bar>m\<bar> < real_of_int (2 ^ 53)"
      by (simp only: of_int_less_iff)
    then show ?thesis using pow2_pos [of e] by simp
  qed
  also have "\<dots> = pow2 (e + 53)"
  proof -
    have "pow2 53 = 2 ^ 53" by (simp add: pow2_def)
    then show ?thesis by (simp add: pow2_add)
  qed
  finally have b: "\<bar>x\<bar> < pow2 (e + 53)" .
  define u where "u = pow2 (binade x - 52)"
  have u: "0 < u" by (simp add: u_def pow2_pos)
  define d where "d = e - (binade x - 52)"
  from binade_le [OF nz b assms(2)] have d: "0 \<le> d" by (simp add: d_def)
  have "pow2 e = pow2 d * u"
    by (simp add: pow2_add [symmetric] d_def u_def)
  then have "x = real_of_int m * pow2 d * u" by (simp add: x_def)
  with u have "x / u = real_of_int m * pow2 d" by simp
  also have "\<dots> = real_of_int (m * 2 ^ nat d)"
    using d by (simp add: pow2_nonneg_int)
  finally have q: "x / u = real_of_int (m * 2 ^ nat d)" .
  have "real_of_int (roundHalfEven (x / u)) * u = x / u * u"
    by (simp only: q roundHalfEven_of_int)
  with u have y: "real_of_int (roundHalfEven (x / pow2 (binade x - 52))) * pow2 (binade x - 52) = x"
    by (simp add: u_def)
  have "pow2 (e + 53) \<le> pow2 1024"
    using assms(3) by (intro pow2_mono) simp
  with b have "\<not> pow2 1024 \<le> \<bar>x\<bar>" by simp
  with nz y show ?thesis
    by (simp add: round64_def Let_def x_def [symmetric])
qed

text \<open>Every integer up to \<open>2 ^ 53\<close> in absolute value is a double.\<close>

lemma round64_int:
  assumes "\<bar>k\<bar> \<le> 2 ^ 53"
  shows "round64 (of_int k) = Fin (of_int k)"
proof (cases "\<bar>k\<bar> < 2 ^ 53")
  case True
  from round64_dyadic [OF True, of 0] show ?thesis by (simp add: pow2_def)
next
  case False
  with assms have "\<bar>k\<bar> = 2 ^ 53" by simp
  then have "k = 2 ^ 53 \<or> k = - (2 ^ 53)" by (auto simp: abs_if split: if_splits)
  then show ?thesis
  proof
    assume k: "k = 2 ^ 53"
    from round64_dyadic [of 1 53] show ?thesis by (simp add: pow2_def k)
  next
    assume k: "k = - (2 ^ 53)"
    from round64_dyadic [of "- 1" 53] show ?thesis by (simp add: pow2_def k)
  qed
qed

lemma round64_numeral:
  "numeral n \<le> (2::int) ^ 53 \<Longrightarrow> round64 (numeral n) = Fin (numeral n)"
  using round64_int [of "numeral n"] by simp

lemma round64_one: "round64 1 = Fin 1"
  using round64_int [of 1] by simp

lemma round64_zero: "round64 0 = Fin 0"
  by (simp add: round64_def)

lemma round64_fraction:
  assumes "\<bar>m\<bar> < 2 ^ 53" and "k \<le> 1074"
  shows "round64 (of_int m / 2 ^ k) = Fin (of_int m / 2 ^ k)"
proof -
  have "pow2 (- int k) = 1 / 2 ^ k"
    by (cases "k = 0") (simp_all add: pow2_def)
  with round64_dyadic [OF assms(1), of "- int k"] assms(2) show ?thesis by simp
qed

text \<open>The doubles that the examples below use.\<close>

lemma round64_examples:
  "round64 (1 / 2) = Fin (1 / 2)"
  "round64 (1 / 4) = Fin (1 / 4)"
  "round64 (3 / 4) = Fin (3 / 4)"
  "round64 (5 / 4) = Fin (5 / 4)"
  "round64 (1 / 8) = Fin (1 / 8)"
  "round64 (9 / 8) = Fin (9 / 8)"
  "round64 (1 / 16) = Fin (1 / 16)"
  "round64 (13 / 16) = Fin (13 / 16)"
  "round64 (1 / 512) = Fin (1 / 512)"
  "round64 (129 / 512) = Fin (129 / 512)"
  using round64_fraction [of 1 1] round64_fraction [of 1 2] round64_fraction [of 3 2]
    round64_fraction [of 5 2] round64_fraction [of 1 3] round64_fraction [of 9 3]
    round64_fraction [of 1 4] round64_fraction [of 13 4] round64_fraction [of 1 9]
    round64_fraction [of 129 9]
  by simp_all

lemma literal_values:
  "literal 0 = Fin 0" "literal 1 = Fin 1" "literal (1 / 2) = Fin (1 / 2)" "literal 15 = Fin 15"
  by (simp_all add: literal_def round64_zero round64_one round64_examples round64_numeral)

text \<open>The double of the literal \<^verbatim>\<open>0.1\<close>.\<close>

lemma literal_tenth: "literal (1 / 10) = Fin (3602879701896397 / 36028797018963968)"
proof -
  have l: "\<lfloor>log 2 (1 / 10 :: real)\<rfloor> = - 4"
  proof -
    have "pow2 (- 4) \<le> 1 / 10" "1 / 10 < pow2 (- 3)"
      by (simp_all add: pow2_def)
    then have "(2::real) powr (real_of_int (- 4)) \<le> 1 / 10"
        "1 / 10 < (2::real) powr (real_of_int (- 3))"
      by (simp_all only: pow2_powr)
    then have "real_of_int (- 4) \<le> log 2 (1 / 10 :: real)"
        "log 2 (1 / 10 :: real) < real_of_int (- 3)"
      by (simp_all add: le_log_iff log_less_iff)
    then show ?thesis by (simp add: floor_eq_iff)
  qed
  have b: "binade (1 / 10) = - 4" by (simp add: binade_def l)
  have f: "\<lfloor>36028797018963968 / 5 :: real\<rfloor> = 7205759403792793"
    by (simp add: floor_eq_iff)
  have r: "roundHalfEven (36028797018963968 / 5) = 7205759403792794"
    by (simp add: roundHalfEven_def f Let_def)
  have p: "pow2 (- 56) = 1 / 72057594037927936" "pow2 1024 = 2 ^ 1024"
    by (simp_all add: pow2_def)
  have "(1 / 10 :: real) / pow2 (binade (1 / 10) - 52) = 36028797018963968 / 5"
    by (simp add: b p)
  then show ?thesis
    by (simp add: literal_def round64_def Let_def r b p)
qed

lemma le_iff_not_gt: "x \<noteq> NaN \<Longrightarrow> y \<noteq> NaN \<Longrightarrow> le x y \<longleftrightarrow> \<not> gt x y"
  by (simp add: le_def)

lemma le_not_gt: "le x y \<Longrightarrow> \<not> gt x y"
  by (simp add: le_def)

lemma gt_not_le: "gt x y \<Longrightarrow> \<not> le x y"
  by (simp add: le_def)

section \<open>Properties of the policy engine\<close>

lemma loadPolicy_None_iff:
  "loadPolicy db agentId = None
     \<longleftrightarrow> (\<forall>p \<in> set (policies db). \<not> (p_agentId p = agentId \<and> isActive p))"
  by (auto simp: loadPolicy_def find_None_iff)

lemma loadPolicy_Some_active:
  "loadPolicy db agentId = Some p \<Longrightarrow> p \<in> set (policies db) \<and> p_agentId p = agentId \<and> isActive p"
  by (auto simp: loadPolicy_def find_Some_iff)

lemma sumDocs_foldl: "sumDocs tot ds = foldl add tot (map spend ds)"
  by (induction ds arbitrary: tot) (simp_all add: spend_def)

lemma startOfDay_eq: "startOfDay now = startOfUtcDay now"
  unfolding startOfDay_def startOfUtcDay_def
  by (simp add: minus_mod_eq_div_mult)

lemma getDailySpending_spec: "getDailySpending db now agentId = dailySpentSpec db now agentId"
  by (simp add: getDailySpending_def dailyDocs_def dailySpentSpec_def sumDocs_foldl
        startOfDay_eq stampedToday_def)

text \<open>The timestamps of the examples.\<close>

lemma startOfDay_example: "startOfDay 1700000200000 = 1699920000000"
  by (simp add: startOfDay_def)

lemma toISOString_examples:
  "toISOString 1699920000000 = ''2023-11-14T00:00:00.000Z''"
  "toISOString 1700000100000 = ''2023-11-14T22:15:00.000Z''"
  "toISOString 253402300799999 = ''9999-12-31T23:59:59.999Z''"
  "toISOString 253402300800000 = ''+010000-01-01T00:00:00.000Z''"
  by code_simp+

lemma loadPolicy_exampleDb: "loadPolicy exampleDb ''agent1'' = Some examplePolicy"
  by (simp add: loadPolicy_def exampleDb_def examplePolicy_def)

lemma loadPolicy_allowlistDb:
  "loadPolicy allowlistDb ''agent1'' = Some (examplePolicy\<lparr>allowlistedPrograms := [''JUP6'']\<rparr>)"
  by (simp add: loadPolicy_def allowlistDb_def exampleDb_def examplePolicy_def)

lemma spent_exampleDb: "getDailySpending exampleDb 1700000200000 ''agent1'' = Fin (3 / 4)"
  by (simp add: getDailySpending_def dailyDocs_def exampleDb_def exampleTx_def
        startOfDay_example toISOString_examples round64_examples)

lemma spent_allowlistDb: "getDailySpending allowlistDb now ''agent1'' = Fin 0"
  by (simp add: getDailySpending_def dailyDocs_def allowlistDb_def)

text \<open>
  C1. For an agent with no active spending policy in the store, \<open>evaluateTransaction\<close>
  returns \<open>autoApproved = False\<close> with the fail-safe reason, for every proposed amount and
  every optional target program.
\<close>

theorem evaluate_no_policy_fail_closed:
  assumes "\<forall>p \<in> set (policies db). \<not> (p_agentId p = agentId \<and> isActive p)"
  shows "evaluateTransaction str toFixed db now agentId txAmount programId
           = \<lparr>autoApproved = False,
              reason = ''No active spending policy found. Human approval required.''\<rparr>"
proof -
  from assms have "loadPolicy db agentId = None"
    by (simp only: loadPolicy_None_iff)
  then show ?thesis
    by (simp add: evaluateTransaction_def)
qed

theorem evaluate_no_policy_fail_closed_witness:
  "policies exampleDb = [examplePolicy] \<and> p_agentId examplePolicy \<noteq> ''agent2''
   \<and> evaluateTransaction fmt fmt exampleDb 1700000200000 ''agent2'' (Fin (1 / 16)) (Some ''JUP6'')
       = \<lparr>autoApproved = False,
          reason = ''No active spending policy found. Human approval required.''\<rparr>"
proof -
  have h: "\<forall>p \<in> set (policies exampleDb). \<not> (p_agentId p = ''agent2'' \<and> isActive p)"
    by (simp add: exampleDb_def examplePolicy_def)
  from evaluate_no_policy_fail_closed [OF h] show ?thesis
    by (simp add: exampleDb_def examplePolicy_def)
qed

text \<open>
  The sentence of C2 as it is written fails for a target program that is supplied as the
  empty string: the amount is within the three limits, the allowlist is not empty and
  does not hold the empty string, and the transaction is auto-approved.
\<close>

theorem empty_target_counterexample:
  "loadPolicy allowlistDb ''agent1'' = Some (examplePolicy\<lparr>allowlistedPrograms := [''JUP6'']\<rparr>)
   \<and> le (Fin 0) (Fin (1 / 16))
   \<and> le (Fin (1 / 16)) (perTxLimitSol (examplePolicy\<lparr>allowlistedPrograms := [''JUP6'']\<rparr>))
   \<and> le (add (getDailySpending allowlistDb 1700000200000 ''agent1'') (Fin (1 / 16)))
        (dailyLimitSol (examplePolicy\<lparr>allowlistedPrograms := [''JUP6'']\<rparr>))
   \<and> le (Fin (1 / 16)) (requireApprovalAbove (examplePolicy\<lparr>allowlistedPrograms := [''JUP6'']\<rparr>))
   \<and> \<not> (Some [] = (None :: string option)
         \<or> allowlistedPrograms (examplePolicy\<lparr>allowlistedPrograms := [''JUP6'']\<rparr>) = []
         \<or> the (Some []) \<in> set (allowlistedPrograms (examplePolicy\<lparr>allowlistedPrograms := [''JUP6'']\<rparr>)))
   \<and> autoApproved (evaluateTransaction fmt fmt allowlistDb 1700000200000 ''agent1''
                     (Fin (1 / 16)) (Some []))"
  by (simp add: loadPolicy_allowlistDb evaluateTransaction_def spent_allowlistDb examplePolicy_def
        le_def round64_examples)

text \<open>
  C2 (amended). For an active policy \<open>p\<close> of the agent whose three limits are numbers, a
  non-negative amount \<open>a\<close> and a daily spend whose sum with \<open>a\<close> is a number (not NaN):
  when \<open>a \<le> perTxLimitSol p\<close>, the daily spend plus \<open>a\<close> is at most \<open>dailyLimitSol p\<close>, the
  target program is absent or the empty string or the allowlist is empty or holds it,
  and \<open>a \<le> requireApprovalAbove p\<close>, the result is auto-approved; otherwise it is not, and
  the reason is that of the first violated check in the order per-transaction limit,
  daily limit, allowlist, threshold. A limit is violated exactly when the strict \<open>>\<close>
  of the source holds. The sum is the double that \<^verbatim>\<open>dailySpent + txAmount\<close> computes.
\<close>

theorem policy_checks_in_order:
  assumes "loadPolicy db agentId = Some p" and "le (Fin 0) a"
    and "perTxLimitSol p \<noteq> NaN" and "dailyLimitSol p \<noteq> NaN"
    and "requireApprovalAbove p \<noteq> NaN"
    and "add (getDailySpending db now agentId) a \<noteq> NaN"
  shows "(le a (perTxLimitSol p)
            \<and> le (add (getDailySpending db now agentId) a) (dailyLimitSol p)
            \<and> (\<not> truthy programId \<or> allowlistedPrograms p = []
                 \<or> the programId \<in> set (allowlistedPrograms p))
            \<and> le a (requireApprovalAbove p)
          \<longrightarrow> evaluateTransaction str toFixed db now agentId a programId
                = \<lparr>autoApproved = True,
                   reason = ''Transaction within policy limits. Auto-approved.''\<rparr>)
       \<and> (\<not> le a (perTxLimitSol p)
          \<longrightarrow> evaluateTransaction str toFixed db now agentId a programId
                = \<lparr>autoApproved = False,
                   reason = ''Transaction amount '' @ str a @ '' SOL exceeds per-tx limit of ''
                              @ str (perTxLimitSol p) @ '' SOL.''\<rparr>)
       \<and> (le a (perTxLimitSol p)
            \<and> \<not> le (add (getDailySpending db now agentId) a) (dailyLimitSol p)
          \<longrightarrow> evaluateTransaction str toFixed db now agentId a programId
                = \<lparr>autoApproved = False,
                   reason = ''Daily spending would reach ''
                              @ toFixed (add (getDailySpending db now agentId) a)
                              @ '' SOL, exceeding daily limit of '' @ str (dailyLimitSol p)
                              @ '' SOL.''\<rparr>)
       \<and> (le a (perTxLimitSol p)
            \<and> le (add (getDailySpending db now agentId) a) (dailyLimitSol p)
            \<and> \<not> (\<not> truthy programId \<or> allowlistedPrograms p = []
                   \<or> the programId \<in> set (allowlistedPrograms p))
          \<longrightarrow> evaluateTransaction str toFixed db now agentId a programId
                = \<lparr>autoApproved = False,
                   reason = ''Program '' @ the programId
                              @ '' is not in the allowlisted programs.''\<rparr>)
       \<and> (le a (perTxLimitSol p)
            \<and> le (add (getDailySpending db now agentId) a) (dailyLimitSol p)
            \<and> (\<not> truthy programId \<or> allowlistedPrograms p = []
                 \<or> the programId \<in> set (allowlistedPrograms p))
            \<and> \<not> le a (requireApprovalAbove p)
          \<longrightarrow> evaluateTransaction str toFixed db now agentId a programId
                = \<lparr>autoApproved = False,
                   reason = ''Transaction amount '' @ str a
                              @ '' SOL exceeds approval threshold of ''
                              @ str (requireApprovalAbove p) @ '' SOL.''\<rparr>)
       \<and> (\<not> le a (perTxLimitSol p) \<longleftrightarrow> gt a (perTxLimitSol p))
       \<and> (\<not> le (add (getDailySpending db now agentId) a) (dailyLimitSol p)
            \<longleftrightarrow> gt (add (getDailySpending db now agentId) a) (dailyLimitSol p))
       \<and> (\<not> le a (requireApprovalAbove p) \<longleftrightarrow> gt a (requireApprovalAbove p))"
proof -
  from assms(2) have a: "a \<noteq> NaN" by (simp add: le_def)
  have l1: "le a (perTxLimitSol p) \<longleftrightarrow> \<not> gt a (perTxLimitSol p)"
    using a assms(3) by (rule le_iff_not_gt)
  have l2: "le (add (getDailySpending db now agentId) a) (dailyLimitSol p)
              \<longleftrightarrow> \<not> gt (add (getDailySpending db now agentId) a) (dailyLimitSol p)"
    using assms(6) assms(4) by (rule le_iff_not_gt)
  have l3: "le a (requireApprovalAbove p) \<longleftrightarrow> \<not> gt a (requireApprovalAbove p)"
    using a assms(5) by (rule le_iff_not_gt)
  show ?thesis
    unfolding l1 l2 l3 using assms(1)
    by (auto simp: evaluateTransaction_def Let_def)
qed

theorem policy_checks_in_order_witness:
  "loadPolicy allowlistDb ''agent1'' = Some (examplePolicy\<lparr>allowlistedPrograms := [''JUP6'']\<rparr>)
   \<and> le (Fin 0) (Fin (1 / 16))
   \<and> perTxLimitSol (examplePolicy\<lparr>allowlistedPrograms := [''JUP6'']\<rparr>) = Fin (1 / 2)
   \<and> dailyLimitSol (examplePolicy\<lparr>allowlistedPrograms := [''JUP6'']\<rparr>) = Fin 1
   \<and> requireApprovalAbove (examplePolicy\<lparr>allowlistedPrograms := [''JUP6'']\<rparr>) = Fin (1 / 8)
   \<and> add (getDailySpending allowlistDb 1700000200000 ''agent1'') (Fin (1 / 16)) = Fin (1 / 16)
   \<and> add (getDailySpending allowlistDb 1700000200000 ''agent1'') (Fin (3 / 4)) = Fin (3 / 4)
   \<and> evaluateTransaction fmt fmt allowlistDb 1700000200000 ''agent1'' (Fin (1 / 16)) (Some ''JUP6'')
       = \<lparr>autoApproved = True, reason = ''Transaction within policy limits. Auto-approved.''\<rparr>
   \<and> evaluateTransaction fmt fmt allowlistDb 1700000200000 ''agent1'' (Fin (1 / 16)) (Some ''KAMI'')
       = \<lparr>autoApproved = False, reason = ''Program KAMI is not in the allowlisted programs.''\<rparr>
   \<and> evaluateTransaction fmt fmt allowlistDb 1700000200000 ''agent1'' (Fin (3 / 4)) (Some ''KAMI'')
       = \<lparr>autoApproved = False,
          reason = ''Transaction amount # SOL exceeds per-tx limit of # SOL.''\<rparr>"
proof -
  let ?p = "examplePolicy\<lparr>allowlistedPrograms := [''JUP6'']\<rparr>"
  have p: "loadPolicy allowlistDb ''agent1'' = Some ?p"
    by (rule loadPolicy_allowlistDb)
  have a1: "le (Fin 0) (Fin (1 / 16))" and a2: "le (Fin 0) (Fin (3 / 4))"
    by (simp_all add: le_def)
  have n: "perTxLimitSol ?p \<noteq> NaN" "dailyLimitSol ?p \<noteq> NaN" "requireApprovalAbove ?p \<noteq> NaN"
    by (simp_all add: examplePolicy_def)
  have s1: "add (getDailySpending allowlistDb 1700000200000 ''agent1'') (Fin (1 / 16))
              = Fin (1 / 16)"
    and s2: "add (getDailySpending allowlistDb 1700000200000 ''agent1'') (Fin (3 / 4))
              = Fin (3 / 4)"
    by (simp_all add: spent_allowlistDb round64_examples)
  have m1: "add (getDailySpending allowlistDb 1700000200000 ''agent1'') (Fin (1 / 16)) \<noteq> NaN"
    and m2: "add (getDailySpending allowlistDb 1700000200000 ''agent1'') (Fin (3 / 4)) \<noteq> NaN"
    by (simp_all add: s1 s2)
  from policy_checks_in_order [OF p a1 n m1, of "Some ''JUP6''" fmt fmt]
       policy_checks_in_order [OF p a1 n m1, of "Some ''KAMI''" fmt fmt]
       policy_checks_in_order [OF p a2 n m2, of "Some ''KAMI''" fmt fmt]
       p s1 s2
  show ?thesis
    by (simp add: examplePolicy_def fmt_def le_def)
qed

text \<open>
  The daily limit is out of force once the ledger of the day holds a record whose fee or
  amount is NaN, as the webhook stores it for an event without a fee: the daily spend is
  NaN, no comparison with it holds, and an amount that takes the agent beyond the limit
  is auto-approved.
\<close>

lemma missing_fee_disables_daily_limit:
  "getDailySpending feeLessDb 1700000200000 ''agent1'' = NaN
   \<and> gt (add (Fin 1) (Fin (1 / 8))) (dailyLimitSol examplePolicy)
   \<and> evaluateTransaction fmt fmt feeLessDb 1700000200000 ''agent1'' (Fin (1 / 8)) None
       = \<lparr>autoApproved = True, reason = ''Transaction within policy limits. Auto-approved.''\<rparr>"
proof -
  have s: "getDailySpending feeLessDb 1700000200000 ''agent1'' = NaN"
    by (simp add: getDailySpending_def dailyDocs_def feeLessDb_def exampleDb_def exampleTx_def
          startOfDay_example toISOString_examples)
  have p: "loadPolicy feeLessDb ''agent1'' = Some examplePolicy"
    by (simp add: loadPolicy_def feeLessDb_def exampleDb_def examplePolicy_def)
  show ?thesis
    by (simp add: s p evaluateTransaction_def examplePolicy_def round64_examples)
qed

text \<open>
  The sentence of C3 as it is written fails for a record stamped outside the years 0 to
  9999: the query compares the stored ISO-8601 strings, and the string of a later year
  starts with a plus sign, which comes before every digit. The only record of the ledger
  is a successful one of the agent, stamped at the first instant of the year 10000 and
  so not before the start of the current UTC day; the daily spend leaves it out.
\<close>

theorem year_10000_counterexample:
  "transactions farFutureDb = [exampleTx (Fin (3 / 4)) 253402300800000]
   \<and> tx_agentId (exampleTx (Fin (3 / 4)) 253402300800000) = Some ''agent1''
   \<and> tx_status (exampleTx (Fin (3 / 4)) 253402300800000) = Success
   \<and> tx_timestamp (exampleTx (Fin (3 / 4)) 253402300800000) = toISOString 253402300800000
   \<and> startOfUtcDay 1700000200000 \<le> 253402300800000
   \<and> spend (exampleTx (Fin (3 / 4)) 253402300800000) = Fin (3 / 4)
   \<and> getDailySpending farFutureDb 1700000200000 ''agent1'' = Fin 0"
  by (simp add: farFutureDb_def exampleTx_def startOfUtcDay_def spend_def round64_examples
        getDailySpending_def dailyDocs_def startOfDay_example toISOString_examples)

text \<open>
  C3 (amended). The daily spend of the evaluator is the sum of amount plus fee, added up
  in doubles in the order of the query, over exactly the stored records of the agent
  with status success whose timestamp string is not before the ISO-8601 string of the
  start of the current UTC day in the order of strings; once the per-transaction check
  has passed, the evaluator rejects with the daily-limit reason exactly when that sum
  plus the proposed amount is strictly greater than the policy's daily limit.
\<close>

theorem daily_limit_check:
  "getDailySpending db now agentId = dailySpentSpec db now agentId
   \<and> (\<forall>p. loadPolicy db agentId = Some p \<and> \<not> gt txAmount (perTxLimitSol p) \<longrightarrow>
        (gt (add (dailySpentSpec db now agentId) txAmount) (dailyLimitSol p) \<longrightarrow>
           evaluateTransaction str toFixed db now agentId txAmount programId
             = \<lparr>autoApproved = False,
                reason = ''Daily spending would reach ''
                           @ toFixed (add (dailySpentSpec db now agentId) txAmount)
                           @ '' SOL, exceeding daily limit of '' @ str (dailyLimitSol p)
                           @ '' SOL.''\<rparr>)
        \<and> (\<not> gt (add (dailySpentSpec db now agentId) txAmount) (dailyLimitSol p) \<longrightarrow>
             take 5 (reason (evaluateTransaction str toFixed db now agentId txAmount programId))
               \<noteq> ''Daily''))"
  by (auto simp: getDailySpending_spec evaluateTransaction_def Let_def)

lemma spentSpec_exampleDb: "dailySpentSpec exampleDb 1700000200000 ''agent1'' = Fin (3 / 4)"
  using spent_exampleDb by (simp only: getDailySpending_spec)

theorem daily_limit_check_witness:
  "loadPolicy exampleDb ''agent1'' = Some examplePolicy
   \<and> \<not> gt (Fin (1 / 2)) (perTxLimitSol examplePolicy)
   \<and> gt (add (dailySpentSpec exampleDb 1700000200000 ''agent1'') (Fin (1 / 2)))
        (dailyLimitSol examplePolicy)
   \<and> evaluateTransaction fmt fmt exampleDb 1700000200000 ''agent1'' (Fin (1 / 2)) None
       = \<lparr>autoApproved = False,
          reason = ''Daily spending would reach # SOL, exceeding daily limit of # SOL.''\<rparr>
   \<and> \<not> gt (add (dailySpentSpec exampleDb 1700000200000 ''agent1'') (Fin (1 / 4)))
          (dailyLimitSol examplePolicy)
   \<and> take 5 (reason (evaluateTransaction fmt fmt exampleDb 1700000200000 ''agent1''
                       (Fin (1 / 4)) None))
       \<noteq> ''Daily''"
  using daily_limit_check [of exampleDb 1700000200000 "''agent1''" "Fin (1 / 2)" fmt fmt None]
        daily_limit_check [of exampleDb 1700000200000 "''agent1''" "Fin (1 / 4)" fmt fmt None]
  by (simp add: loadPolicy_exampleDb spentSpec_exampleDb examplePolicy_def fmt_def
        round64_examples round64_one)
section \<open>The semantic type of an event\<close>







text \<open>With an upper-casing that maps the long s to S, as that of the Unicode standard
  does, a raw type written with it is a swap as well.\<close>

lemma long_s_swap:
  "toUpperCase [CHR 0xC5, CHR 0xBF, CHR ''w'', CHR ''a'', CHR ''p''] = ''SWAP''
     \<Longrightarrow> mapHeliusType toUpperCase [CHR 0xC5, CHR 0xBF, CHR ''w'', CHR ''a'', CHR ''p''] = Swap"
  by (simp add: mapHeliusType_def)
section \<open>Properties of the agent REST API\<close>

lemma sendPush_approvals:
  "sendPushToOwner penv db owner = Some db' \<Longrightarrow> approvals db' = approvals db"
  by (auto simp: sendPushToOwner_def split: if_splits option.splits FcmOutcome.splits)

lemma sendPush_other:
  "sendPushToOwner penv db owner = Some db'
     \<Longrightarrow> agents db' = agents db \<and> policies db' = policies db \<and> transactions db' = transactions db"
  by (auto simp: sendPushToOwner_def split: if_splits option.splits FcmOutcome.splits)

text \<open>
  C10. A registration answered with 201 has added, in the one batch, the agent record
  and a default policy for that agent that is active, with daily limit 1.0,
  per-transaction limit 0.5, an empty allowlist and approval threshold 0.1 (the double
  of that literal); the policy engine then finds an active policy for the new agent and
  does not answer with the no-policy reason.
\<close>

theorem register_creates_default_policy:
  assumes "registerAgent hashApiKey env db body = (db', 201, rb)"
  shows "agents db' = agents db @ [agentData hashApiKey env body]
       \<and> policies db' = policies db @ [defaultPolicy env]
       \<and> agent_id (agentData hashApiKey env body) = agentRefId env
       \<and> p_agentId (defaultPolicy env) = agentRefId env
       \<and> isActive (defaultPolicy env)
       \<and> dailyLimitSol (defaultPolicy env) = Fin 1.0
       \<and> perTxLimitSol (defaultPolicy env) = Fin 0.5
       \<and> allowlistedPrograms (defaultPolicy env) = []
       \<and> requireApprovalAbove (defaultPolicy env) = literal 0.1
       \<and> loadPolicy db' (agentRefId env) \<noteq> None
       \<and> take 2 (reason (evaluateTransaction str toFixed db' now (agentRefId env) a prog)) \<noteq> ''No''"
proof -
  from assms have db': "db' = db\<lparr>agents := agents db @ [agentData hashApiKey env body],
            policies := policies db @ [defaultPolicy env],
            users := updateDoc (\<lambda>u. u_id u = r_ownerId body)
                       (\<lambda>u. u\<lparr>agentIds := arrayUnion (agentIds u) (agentRefId env)\<rparr>)
                       (users db)\<rparr>"
    by (simp add: registerAgent_def split: if_splits)
  have fields: "p_agentId (defaultPolicy env) = agentRefId env" "isActive (defaultPolicy env)"
    by (simp_all add: defaultPolicy_def)
  have "defaultPolicy env \<in> set (policies db')" by (simp add: db')
  with fields have found: "loadPolicy db' (agentRefId env) \<noteq> None"
    by (auto simp: loadPolicy_None_iff)
  then have "take 2 (reason (evaluateTransaction str toFixed db' now (agentRefId env) a prog)) \<noteq> ''No''"
    by (auto simp: evaluateTransaction_def Let_def split: if_splits)
  with found show ?thesis
    by (simp add: db' defaultPolicy_def agentData_def literal_values)
qed

theorem register_creates_default_policy_witness:
  "registerAgent id exampleRegisterEnv exampleDb exampleRegisterBody
     = (exampleDb\<lparr>agents := [exampleAgent, agentData id exampleRegisterEnv exampleRegisterBody],
                  policies := [examplePolicy, defaultPolicy exampleRegisterEnv],
                  users := [exampleUser\<lparr>agentIds := [''agent1'', ''agent2'']\<rparr>]\<rparr>,
        201, Registered ''agent2'' ''key''
               ''Store this API key securely. It will not be shown again.'')
   \<and> loadPolicy (fst (registerAgent id exampleRegisterEnv exampleDb exampleRegisterBody)) ''agent2''
       = Some (defaultPolicy exampleRegisterEnv)"
proof -
  have r: "registerAgent id exampleRegisterEnv exampleDb exampleRegisterBody
     = (exampleDb\<lparr>agents := [exampleAgent, agentData id exampleRegisterEnv exampleRegisterBody],
                  policies := [examplePolicy, defaultPolicy exampleRegisterEnv],
                  users := [exampleUser\<lparr>agentIds := [''agent1'', ''agent2'']\<rparr>]\<rparr>,
        201, Registered ''agent2'' ''key''
               ''Store this API key securely. It will not be shown again.'')"
    by (simp add: registerAgent_def exampleRegisterEnv_def exampleRegisterBody_def exampleDb_def
          exampleUser_def validWalletAddress_def isBase58Char_def arrayUnion_def)
  from register_creates_default_policy [OF r, of fmt fmt 0 "Fin 0" None] r show ?thesis
    by (simp add: loadPolicy_def exampleDb_def examplePolicy_def defaultPolicy_def
          exampleRegisterEnv_def)
qed

lemma ttl_requested:
  "(case expiresInMinutes body of None \<Rightarrow> literal 15 | Some m \<Rightarrow> m) = requestedTtl body"
  by (simp add: requestedTtl_def literal_values split: option.splits)

lemma TimeClip_Some: "TimeClip x = Some e \<Longrightarrow> \<exists>v. x = Fin v \<and> e = wholeMs v"
  by (cases x) (simp_all add: wholeMs_def split: if_splits)

lemma TimeClip_of_int: "TimeClip (Fin (real_of_int t)) = Some e \<Longrightarrow> e = t"
  by (simp split: if_splits)

text \<open>A time to live of a whole number of minutes is added without rounding.\<close>

lemma whole_minutes_exact:
  assumes "\<bar>k\<bar> \<le> 6000000000" and "\<bar>t\<bar> \<le> 8640000000000000"
  shows "add (getTime t) (mul (mul (Fin (real_of_int k)) 60) 1000)
           = Fin (real_of_int (t + k * 60000))"
proof -
  from assms(1) have "\<bar>k * 60\<bar> \<le> 2 ^ 53" by (simp add: abs_mult)
  from round64_int [OF this] have a: "mul (Fin (real_of_int k)) 60 = Fin (real_of_int (k * 60))"
    by simp
  from assms(1) have "\<bar>k * 60 * 1000\<bar> \<le> 2 ^ 53" by (simp add: abs_mult)
  from round64_int [OF this]
  have b: "mul (Fin (real_of_int (k * 60))) 1000 = Fin (real_of_int (k * 60 * 1000))"
    by simp
  from assms have "\<bar>t + k * 60 * 1000\<bar> \<le> 2 ^ 53" by (simp add: abs_if split: if_splits)
  from round64_int [OF this]
  have c: "add (Fin (real_of_int t)) (Fin (real_of_int (k * 60 * 1000)))
             = Fin (real_of_int (t + k * 60 * 1000))"
    by simp
  show ?thesis
    by (simp only: a b c getTime_def) simp
qed

lemma requestApproval_persisted:
  assumes "approvals (fst (requestApproval str toFixed env db agent body)) \<noteq> approvals db"
  shows "\<exists>e. TimeClip (add (getTime (reqNow env)) (mul (mul (requestedTtl body) 60) 1000)) = Some e
           \<and> approvals (fst (requestApproval str toFixed env db agent body))
               = approvals db @
                 [approvalData env agent body
                    (evaluateTransaction str toFixed db (evalNow env) (agent_id agent)
                       (the (b_estimatedSolCost body)) (b_targetProgram body)) e]"
  using assms unfolding requestApproval_def Let_def ttl_requested
  by (auto split: if_splits option.splits dest: sendPush_approvals)

lemma exampleDb_fields:
  "approvals exampleDb = []" "users exampleDb = [exampleUser]"
  by (simp_all add: exampleDb_def)

lemma evaluate_example_small:
  "evaluateTransaction fmt fmt exampleDb 1700000200000 ''agent1'' (Fin (1 / 16)) None
     = \<lparr>autoApproved = True, reason = ''Transaction within policy limits. Auto-approved.''\<rparr>"
  by (simp add: evaluateTransaction_def loadPolicy_exampleDb spent_exampleDb examplePolicy_def
        round64_examples)

lemma evaluate_example_daily:
  "evaluateTransaction fmt fmt exampleDb 1700000200000 ''agent1'' (Fin (1 / 2)) None
     = \<lparr>autoApproved = False,
        reason = ''Daily spending would reach # SOL, exceeding daily limit of # SOL.''\<rparr>"
  by (simp add: evaluateTransaction_def loadPolicy_exampleDb spent_exampleDb examplePolicy_def
        fmt_def round64_examples)

text \<open>The expiry dates of the examples: a time to live of 1/131072 minutes, of one minute
  and of the default.\<close>

lemma expiry_examples:
  "TimeClip (add (getTime 1700000200005) (mul (mul (Fin (1 / 131072)) 60) 1000))
     = Some 1700000200005"
  "TimeClip (add (getTime 1700000200005) (mul (mul (Fin 1) 60) 1000)) = Some 1700000260005"
  "TimeClip (add (getTime 1700000200005) (mul (mul (Fin 15) 60) 1000)) = Some 1700001100005"
proof -
  have f: "round64 (15 / 32768) = Fin (15 / 32768)" "round64 (1875 / 4096) = Fin (1875 / 4096)"
      "round64 (6963200819222355 / 4096) = Fin (6963200819222355 / 4096)"
    using round64_fraction [of 15 15] round64_fraction [of 1875 12]
      round64_fraction [of 6963200819222355 12]
    by simp_all
  show "TimeClip (add (getTime 1700000200005) (mul (mul (Fin (1 / 131072)) 60) 1000))
     = Some 1700000200005"
    by (simp add: getTime_def f)
  from whole_minutes_exact [of 1 1700000200005]
  show "TimeClip (add (getTime 1700000200005) (mul (mul (Fin 1) 60) 1000)) = Some 1700000260005"
    by simp
  from whole_minutes_exact [of 15 1700000200005]
  show "TimeClip (add (getTime 1700000200005) (mul (mul (Fin 15) 60) 1000))
          = Some 1700001100005"
    by simp
qed

text \<open>
  The sentence of C4 as it is written fails for a time to live that is not a whole number
  of milliseconds: a request for 1/131072 minutes, which are 1875/4096 milliseconds,
  expires at its creation time.
\<close>

theorem tiny_ttl_counterexample:
  "a_status tinyTtlApproval = Approved
   \<and> createdAt tinyTtlApproval = 1700000200005
   \<and> expiresAt tinyTtlApproval = 1700000200005
   \<and> real_of_int (expiresAt tinyTtlApproval)
       \<noteq> real_of_int (createdAt tinyTtlApproval) + 1 / 131072 * 60 * 1000"
  by (simp add: tinyTtlApproval_def requestApproval_def Let_def exampleEnv_def exampleBody_def
        exampleAgent_def evaluate_example_small expiry_examples exampleDb_fields approvalData_def
        lt_def literal_values
        del: mul.simps add.simps)

text \<open>
  C4 (amended). Whenever the handler persists an approval request, it adds exactly one
  record, created at the handler's clock; when the policy engine auto-approves, the
  record has status approved and \<open>respondedAt\<close> equal to its creation time, otherwise
  status pending and no \<open>respondedAt\<close>; \<open>expiresAt\<close> is the double that the creation time
  plus the requested time to live (15 minutes by default) times 60 times 1000 comes to,
  cut to a whole millisecond, and exactly the creation time plus the time to live when
  that is a whole number of minutes, up to 6000000000.
\<close>

theorem approval_created_with_verdict:
  fixes str toFixed env db agent body
  defines "ev \<equiv> evaluateTransaction str toFixed db (evalNow env) (agent_id agent)
                   (the (b_estimatedSolCost body)) (b_targetProgram body)"
  defines "r \<equiv> last (approvals (fst (requestApproval str toFixed env db agent body)))"
  assumes "approvals (fst (requestApproval str toFixed env db agent body)) \<noteq> approvals db"
  shows "approvals (fst (requestApproval str toFixed env db agent body)) = approvals db @ [r]
       \<and> createdAt r = reqNow env
       \<and> (autoApproved ev \<longrightarrow> a_status r = Approved \<and> respondedAt r = Some (createdAt r))
       \<and> (\<not> autoApproved ev \<longrightarrow> a_status r = Pending \<and> respondedAt r = None)
       \<and> (\<exists>v. add (getTime (createdAt r)) (mul (mul (requestedTtl body) 60) 1000) = Fin v
              \<and> expiresAt r = wholeMs v)
       \<and> (\<forall>k. requestedTtl body = Fin (real_of_int k) \<and> \<bar>k\<bar> \<le> 6000000000
                \<and> \<bar>createdAt r\<bar> \<le> 8640000000000000
              \<longrightarrow> expiresAt r = createdAt r + k * 60 * 1000)
       \<and> (expiresInMinutes body = None \<and> \<bar>createdAt r\<bar> \<le> 8640000000000000
              \<longrightarrow> expiresAt r = createdAt r + 15 * 60 * 1000)"
proof -
  from requestApproval_persisted [OF assms(3)] obtain e
    where e: "TimeClip (add (getTime (reqNow env)) (mul (mul (requestedTtl body) 60) 1000))
                = Some e"
      and a: "approvals (fst (requestApproval str toFixed env db agent body))
                = approvals db @ [approvalData env agent body ev e]"
    unfolding ev_def by blast
  from a have r: "r = approvalData env agent body ev e"
    by (simp add: r_def)
  have c: "createdAt r = reqNow env" and x: "expiresAt r = e"
    by (simp_all add: r approvalData_def)
  from TimeClip_Some [OF e]
  have v: "\<exists>v. add (getTime (createdAt r)) (mul (mul (requestedTtl body) 60) 1000) = Fin v
              \<and> expiresAt r = wholeMs v"
    by (simp only: c x)
  have i: "expiresAt r = createdAt r + k * 60 * 1000"
    if "requestedTtl body = Fin (real_of_int k)" "\<bar>k\<bar> \<le> 6000000000"
       "\<bar>createdAt r\<bar> \<le> 8640000000000000" for k
  proof -
    from that(2,3) have w: "add (getTime (reqNow env)) (mul (mul (Fin (real_of_int k)) 60) 1000)
             = Fin (real_of_int (reqNow env + k * 60000))"
      by (simp only: c whole_minutes_exact)
    from e have "TimeClip (Fin (real_of_int (reqNow env + k * 60000))) = Some e"
      by (simp only: that(1) w)
    then have "e = reqNow env + k * 60000" by (rule TimeClip_of_int)
    then show ?thesis by (simp add: c x)
  qed
  have d: "expiresAt r = createdAt r + 15 * 60 * 1000"
    if "expiresInMinutes body = None" "\<bar>createdAt r\<bar> \<le> 8640000000000000"
  proof -
    from that(1) have "requestedTtl body = Fin (real_of_int 15)"
      by (simp add: requestedTtl_def)
    from i [OF this _ that(2)] show ?thesis by simp
  qed
  from a c v i d show ?thesis
    by (simp add: r approvalData_def)
qed

theorem approval_created_with_verdict_witness:
  "approvals (fst (requestApproval fmt fmt (exampleEnv Delivered) exampleDb exampleAgent
                     (exampleBody (Fin (1 / 2)) (Some (Fin 1)))))
     = [approvalData (exampleEnv Delivered) exampleAgent (exampleBody (Fin (1 / 2)) (Some (Fin 1)))
          \<lparr>autoApproved = False,
           reason = ''Daily spending would reach # SOL, exceeding daily limit of # SOL.''\<rparr>
          1700000260005]
   \<and> a_status (last (approvals (fst (requestApproval fmt fmt (exampleEnv Delivered) exampleDb
                                      exampleAgent (exampleBody (Fin (1 / 2)) (Some (Fin 1)))))))
       = Pending
   \<and> respondedAt (last (approvals (fst (requestApproval fmt fmt (exampleEnv Delivered) exampleDb
                                      exampleAgent (exampleBody (Fin (1 / 2)) (Some (Fin 1)))))))
       = None
   \<and> approvals (fst (requestApproval fmt fmt (exampleEnv Delivered) exampleDb exampleAgent
                     (exampleBody (Fin (1 / 16)) None)))
     = [approvalData (exampleEnv Delivered) exampleAgent (exampleBody (Fin (1 / 16)) None)
          \<lparr>autoApproved = True, reason = ''Transaction within policy limits. Auto-approved.''\<rparr>
          1700001100005]
   \<and> a_status (last (approvals (fst (requestApproval fmt fmt (exampleEnv Delivered) exampleDb
                                      exampleAgent (exampleBody (Fin (1 / 16)) None))))) = Approved
   \<and> respondedAt (last (approvals (fst (requestApproval fmt fmt (exampleEnv Delivered) exampleDb
                                      exampleAgent (exampleBody (Fin (1 / 16)) None)))))
       = Some 1700000200005"
proof -
  have p: "approvals (fst (requestApproval fmt fmt (exampleEnv Delivered) exampleDb exampleAgent
                     (exampleBody (Fin (1 / 2)) (Some (Fin 1)))))
     = [approvalData (exampleEnv Delivered) exampleAgent (exampleBody (Fin (1 / 2)) (Some (Fin 1)))
          \<lparr>autoApproved = False,
           reason = ''Daily spending would reach # SOL, exceeding daily limit of # SOL.''\<rparr>
          1700000260005]"
    by (simp add: requestApproval_def Let_def exampleEnv_def exampleBody_def exampleAgent_def
        evaluate_example_daily expiry_examples exampleDb_fields sendPushToOwner_def
        exampleUser_def lt_def literal_values
        del: mul.simps add.simps)
  have q: "approvals (fst (requestApproval fmt fmt (exampleEnv Delivered) exampleDb exampleAgent
                     (exampleBody (Fin (1 / 16)) None)))
     = [approvalData (exampleEnv Delivered) exampleAgent (exampleBody (Fin (1 / 16)) None)
          \<lparr>autoApproved = True, reason = ''Transaction within policy limits. Auto-approved.''\<rparr>
          1700001100005]"
    by (simp add: requestApproval_def Let_def exampleEnv_def exampleBody_def exampleAgent_def
        evaluate_example_small expiry_examples exampleDb_fields lt_def literal_values
        del: mul.simps add.simps)
  have e: "approvals exampleDb = []" by (simp add: exampleDb_def)
  have ev1: "\<not> autoApproved (evaluateTransaction fmt fmt exampleDb (evalNow (exampleEnv Delivered))
               (agent_id exampleAgent)
               (the (b_estimatedSolCost (exampleBody (Fin (1 / 2)) (Some (Fin 1)))))
               (b_targetProgram (exampleBody (Fin (1 / 2)) (Some (Fin 1)))))"
    by (simp add: exampleEnv_def exampleBody_def exampleAgent_def evaluate_example_daily)
  have ev2: "autoApproved (evaluateTransaction fmt fmt exampleDb (evalNow (exampleEnv Delivered))
               (agent_id exampleAgent) (the (b_estimatedSolCost (exampleBody (Fin (1 / 16)) None)))
               (b_targetProgram (exampleBody (Fin (1 / 16)) None)))"
    by (simp add: exampleEnv_def exampleBody_def exampleAgent_def evaluate_example_small)
  have n1: "approvals (fst (requestApproval fmt fmt (exampleEnv Delivered) exampleDb exampleAgent
                     (exampleBody (Fin (1 / 2)) (Some (Fin 1))))) \<noteq> approvals exampleDb"
    by (simp only: p e) simp
  have n2: "approvals (fst (requestApproval fmt fmt (exampleEnv Delivered) exampleDb exampleAgent
                     (exampleBody (Fin (1 / 16)) None))) \<noteq> approvals exampleDb"
    by (simp only: q e) simp
  from approval_created_with_verdict [OF n1] approval_created_with_verdict [OF n2] ev1 ev2 p q
  show ?thesis
    by (simp add: exampleEnv_def)
qed


text \<open>
  The sentence of C7 as it is written fails when the messaging service rejects the push
  to the owner: the failure is caught and logged inside \<open>sendPushToOwner\<close>, the request
  is answered 201 and the record stays.
\<close>

theorem push_failure_counterexample:
  "fcmOutcome (push (exampleEnv (SendFailed ''messaging/internal-error'')))
     = SendFailed ''messaging/internal-error''
   \<and> fst (snd pushFailureRequest) = 201
   \<and> length (approvals (fst pushFailureRequest)) = 1
   \<and> approvals exampleDb = []"
  by (simp add: pushFailureRequest_def requestApproval_def Let_def exampleEnv_def exampleBody_def
        exampleAgent_def evaluate_example_daily expiry_examples exampleDb_fields
        sendPushToOwner_def exampleUser_def lt_def literal_values
        del: mul.simps add.simps)

text \<open>
  The read of the owner's document and the removal of a stale token are outside the
  \<^verbatim>\<open>try\<close> of \<open>sendPushToOwner\<close> and run after the record is written: when one of them
  rejects, the request is answered 500 and the record stays.
\<close>

lemma owner_lookup_failure_after_write:
  "fst (snd ownerLookupFailureRequest) = 500
   \<and> length (approvals (fst ownerLookupFailureRequest)) = 1
   \<and> approvals exampleDb = []"
  by (simp add: ownerLookupFailureRequest_def requestApproval_def Let_def exampleEnv_def
        exampleBody_def exampleAgent_def evaluate_example_daily expiry_examples exampleDb_fields
        sendPushToOwner_def lt_def literal_values
        del: mul.simps add.simps)

text \<open>
  C7 (amended). A valid approval request in which the policy evaluation, the construction
  of the expiry date or the write of the record fails is answered 500 and leaves the store
  as it was, and so does a request answered 400; a failure of the push delivery itself is
  swallowed: with the owner's document readable and the stale-token cleanup working, the
  request is answered 201 and its record is persisted. A registration that is not
  answered 201 leaves the store as it was, and one whose owner lookup or batch commit
  fails is answered 500.
\<close>

theorem failure_up_to_write_changes_nothing:
  "(b_description body \<noteq> [] \<and> b_txType body \<noteq> [] \<and> b_estimatedSolCost body = Some c \<and> \<not> lt c (Fin 0)
      \<and> (evaluateFails env \<or> setFails env
           \<or> TimeClip (add (getTime (reqNow env)) (mul (mul (requestedTtl body) 60) 1000)) = None)
    \<longrightarrow> requestApproval str toFixed env db agent body
          = (db, 500, ErrorBody ''Internal server error''))
   \<and> (fst (snd (requestApproval str toFixed env db agent body)) = 400
        \<longrightarrow> fst (requestApproval str toFixed env db agent body) = db)
   \<and> (b_description body \<noteq> [] \<and> b_txType body \<noteq> [] \<and> b_estimatedSolCost body = Some c \<and> \<not> lt c (Fin 0)
        \<and> \<not> evaluateFails env \<and> \<not> setFails env
        \<and> TimeClip (add (getTime (reqNow env)) (mul (mul (requestedTtl body) 60) 1000)) = Some e
        \<and> \<not> userGetFails (push env) \<and> \<not> tokenDeleteFails (push env)
      \<longrightarrow> fst (snd (requestApproval str toFixed env db agent body)) = 201
          \<and> approvals (fst (requestApproval str toFixed env db agent body))
              = approvals db @
                [approvalData env agent body
                   (evaluateTransaction str toFixed db (evalNow env) (agent_id agent) c
                      (b_targetProgram body)) e])
   \<and> (fst (snd (registerAgent hashApiKey renv db rbody)) \<noteq> 201
        \<longrightarrow> fst (registerAgent hashApiKey renv db rbody) = db)
   \<and> (r_name rbody \<noteq> [] \<and> r_ownerId rbody \<noteq> [] \<and> validWalletAddress (r_walletAddress rbody)
        \<and> (ownerGetFails renv
             \<or> (find (\<lambda>u. u_id u = r_ownerId rbody) (users db) \<noteq> None \<and> commitFails renv))
      \<longrightarrow> registerAgent hashApiKey renv db rbody = (db, 500, ErrorBody ''Internal server error''))"
proof (intro conjI impI)
  assume "b_description body \<noteq> [] \<and> b_txType body \<noteq> [] \<and> b_estimatedSolCost body = Some c \<and> \<not> lt c (Fin 0)
      \<and> (evaluateFails env \<or> setFails env
           \<or> TimeClip (add (getTime (reqNow env)) (mul (mul (requestedTtl body) 60) 1000)) = None)"
  then show "requestApproval str toFixed env db agent body
          = (db, 500, ErrorBody ''Internal server error'')"
    unfolding requestApproval_def Let_def ttl_requested
    by (auto simp: lt_def literal_values split: option.splits)
next
  assume "fst (snd (requestApproval str toFixed env db agent body)) = 400"
  then show "fst (requestApproval str toFixed env db agent body) = db"
    by (auto simp: requestApproval_def Let_def split: if_splits option.splits)
next
  assume a: "b_description body \<noteq> [] \<and> b_txType body \<noteq> [] \<and> b_estimatedSolCost body = Some c \<and> \<not> lt c (Fin 0)
        \<and> \<not> evaluateFails env \<and> \<not> setFails env
        \<and> TimeClip (add (getTime (reqNow env)) (mul (mul (requestedTtl body) 60) 1000)) = Some e
        \<and> \<not> userGetFails (push env) \<and> \<not> tokenDeleteFails (push env)"
  define ev where "ev = evaluateTransaction str toFixed db (evalNow env) (agent_id agent) c
                          (b_targetProgram body)"
  define db1 where "db1 = db\<lparr>approvals := approvals db @ [approvalData env agent body ev e]\<rparr>"
  from a have "sendPushToOwner (push env) db1 (ownerId agent) \<noteq> None"
    by (auto simp: sendPushToOwner_def split: option.splits FcmOutcome.splits)
  then obtain db2 where s: "sendPushToOwner (push env) db1 (ownerId agent) = Some db2"
    by blast
  from sendPush_approvals [OF s] have s2: "approvals db2 = approvals db1" .
  from a have c: "\<not> lt c (literal 0)" by (simp add: literal_values)
  have r: "requestApproval str toFixed env db agent body
             = (if \<not> autoApproved ev then db2 else db1,
                201, ApprovalCreated (approvalRefId env)
                       (a_status (approvalData env agent body ev e)) (autoApproved ev) (reason ev))"
    using a c s unfolding requestApproval_def Let_def ttl_requested
    by (simp add: ev_def [symmetric] db1_def [symmetric])
  show "fst (snd (requestApproval str toFixed env db agent body)) = 201"
    by (simp add: r)
  show "approvals (fst (requestApproval str toFixed env db agent body))
              = approvals db @
                [approvalData env agent body
                   (evaluateTransaction str toFixed db (evalNow env) (agent_id agent) c
                      (b_targetProgram body)) e]"
    by (simp add: r s2) (simp add: db1_def ev_def)
next
  assume "fst (snd (registerAgent hashApiKey renv db rbody)) \<noteq> 201"
  then show "fst (registerAgent hashApiKey renv db rbody) = db"
    by (auto simp: registerAgent_def split: if_splits)
next
  assume "r_name rbody \<noteq> [] \<and> r_ownerId rbody \<noteq> [] \<and> validWalletAddress (r_walletAddress rbody)
        \<and> (ownerGetFails renv
             \<or> (find (\<lambda>u. u_id u = r_ownerId rbody) (users db) \<noteq> None \<and> commitFails renv))"
  then show "registerAgent hashApiKey renv db rbody = (db, 500, ErrorBody ''Internal server error'')"
    by (auto simp: registerAgent_def validWalletAddress_def)
qed


theorem failure_up_to_write_changes_nothing_witness:
  "requestApproval fmt fmt ((exampleEnv Delivered)\<lparr>setFails := True\<rparr>) exampleDb exampleAgent
       (exampleBody (Fin (1 / 2)) None)
     = (exampleDb, 500, ErrorBody ''Internal server error'')
   \<and> fst (snd (requestApproval fmt fmt (exampleEnv (SendFailed ''messaging/internal-error''))
                   exampleDb exampleAgent (exampleBody (Fin (1 / 2)) None))) = 201
   \<and> registerAgent id (exampleRegisterEnv\<lparr>commitFails := True\<rparr>) exampleDb exampleRegisterBody
     = (exampleDb, 500, ErrorBody ''Internal server error'')"
proof -
  have t: "TimeClip (add (getTime (reqNow (exampleEnv fcm)))
                      (mul (mul (requestedTtl (exampleBody (Fin (1 / 2)) None)) 60) 1000))
             = Some 1700001100005" for fcm
    by (simp add: exampleEnv_def exampleBody_def requestedTtl_def expiry_examples
          del: mul.simps add.simps)
  have w: "validWalletAddress (r_walletAddress exampleRegisterBody)"
    by (simp add: exampleRegisterBody_def validWalletAddress_def isBase58Char_def)
  from failure_up_to_write_changes_nothing
         [where body = "exampleBody (Fin (1 / 2)) None" and c = "Fin (1 / 2)"
            and env = "(exampleEnv Delivered)\<lparr>setFails := True\<rparr>" and str = fmt and toFixed = fmt
            and db = exampleDb and agent = exampleAgent and hashApiKey = id
            and renv = "exampleRegisterEnv\<lparr>commitFails := True\<rparr>"
            and rbody = exampleRegisterBody]
       failure_up_to_write_changes_nothing
         [where body = "exampleBody (Fin (1 / 2)) None" and c = "Fin (1 / 2)"
            and env = "exampleEnv (SendFailed ''messaging/internal-error'')"
            and str = fmt and toFixed = fmt and e = 1700001100005
            and db = exampleDb and agent = exampleAgent]
       t w
  show ?thesis
    by (simp add: exampleBody_def exampleEnv_def exampleRegisterBody_def exampleRegisterEnv_def
          exampleDb_fields exampleUser_def lt_def)
qed
section \<open>Properties of the approval lifecycle\<close>

lemma find_updateDoc_same:
  "(\<And>x. P x \<Longrightarrow> P (f x)) \<Longrightarrow> find P (updateDoc P f xs) = map_option f (find P xs)"
  by (induction xs) simp_all

lemma find_updateDoc_other:
  "(\<And>x. P x \<Longrightarrow> \<not> Q x \<and> \<not> Q (f x)) \<Longrightarrow> find Q (updateDoc P f xs) = find Q xs"
  by (induction xs) auto

lemma updateDoc_id: "find P xs = None \<Longrightarrow> updateDoc P f xs = xs"
  by (induction xs) (auto split: if_splits)

lemma updateDoc_rel:
  assumes "\<And>x. R x x" and "\<And>x. find P xs = Some x \<Longrightarrow> R x (f x)"
  shows "list_all2 R xs (updateDoc P f xs)"
  using assms(2)
proof (induction xs)
  case Nil
  show ?case by simp
next
  case (Cons x xs)
  show ?case
  proof (cases "P x")
    case True
    with Cons.prems [of x] assms(1) show ?thesis
      by (simp add: list_all2_refl)
  next
    case False
    with Cons assms(1) show ?thesis by simp
  qed
qed

lemma forwardOnly_refl: "forwardOnly a a"
  by (simp add: forwardOnly_def)

lemma forwardOnly_trans: "forwardOnly a b \<Longrightarrow> forwardOnly b c \<Longrightarrow> forwardOnly a c"
  by (auto simp: forwardOnly_def)

lemma read_forwardOnly:
  "list_all2 forwardOnly (approvals db) (approvals (fst (getApprovalStatus env db caller i)))"
proof -
  have u: "list_all2 forwardOnly (approvals db)
             (updateDoc (\<lambda>a. a_id a = i) (\<lambda>a. a\<lparr>a_status := Expired\<rparr>) (approvals db))"
    if "find (\<lambda>a. a_id a = i) (approvals db) = Some d" and "a_status d = Pending" for d
    using that by (intro updateDoc_rel) (auto simp: forwardOnly_def)
  show ?thesis
    by (auto simp: getApprovalStatus_def list_all2_refl forwardOnly_refl u split: option.splits)
qed

lemma reads_forwardOnly:
  "list_all2 forwardOnly (approvals db) (approvals (pollAll db ps))"
proof (induction ps arbitrary: db)
  case Nil
  show ?case by (simp add: list_all2_refl forwardOnly_refl)
next
  case (Cons p ps)
  have "list_all2 (forwardOnly OO forwardOnly) (approvals db)
          (approvals (pollAll (fst (getApprovalStatus (fst p) db (fst (snd p)) (snd (snd p)))) ps))"
    by (rule list_all2_trans [OF _ read_forwardOnly Cons.IH, of "forwardOnly OO forwardOnly"])
       blast
  then show ?case
    by (auto simp: OO_def elim!: list_all2_mono intro: forwardOnly_trans)
qed

lemma read_keeps_settled:
  assumes "find (\<lambda>a. a_id a = i) (approvals db) = Some d" and "a_status d \<noteq> Pending"
  shows "find (\<lambda>a. a_id a = i) (approvals (fst (getApprovalStatus env db c j))) = Some d"
proof (cases "j = i")
  case True
  with assms show ?thesis by (simp add: getApprovalStatus_def)
next
  case False
  then have "find (\<lambda>a. a_id a = i)
               (updateDoc (\<lambda>a. a_id a = j) (\<lambda>a. a\<lparr>a_status := Expired\<rparr>) (approvals db))
             = find (\<lambda>a. a_id a = i) (approvals db)"
    by (intro find_updateDoc_other) simp
  with assms show ?thesis
    by (auto simp: getApprovalStatus_def split: option.splits)
qed

lemma reads_keep_settled:
  assumes "find (\<lambda>a. a_id a = i) (approvals db) = Some d" and "a_status d \<noteq> Pending"
  shows "find (\<lambda>a. a_id a = i) (approvals (pollAll db ps)) = Some d"
  using assms
proof (induction ps arbitrary: db)
  case Nil
  then show ?case by simp
next
  case (Cons p ps)
  from read_keeps_settled [OF Cons.prems] Cons.prems(2) show ?case
    by (simp add: Cons.IH)
qed

lemma respond_keeps_others:
  assumes "find (\<lambda>a. a_id a = i) (approvals db) = Some d" and "j \<noteq> i \<or> fails"
  shows "find (\<lambda>a. a_id a = i) (approvals (access db (Respond fails now j decision)))
           = Some d"
proof (cases "j = i")
  case True
  with assms show ?thesis by (simp add: respondToApproval_def)
next
  case False
  then have "find (\<lambda>a. a_id a = i)
               (updateDoc (\<lambda>a. a_id a = j)
                  (\<lambda>a. a\<lparr>a_status := decided decision, respondedAt := Some now\<rparr>) (approvals db))
             = find (\<lambda>a. a_id a = i) (approvals db)"
    by (intro find_updateDoc_other) simp
  with assms(1) show ?thesis
    by (simp add: respondToApproval_def)
qed

lemma access_keeps_settled:
  assumes "find (\<lambda>a. a_id a = i) (approvals db) = Some d" and "a_status d \<noteq> Pending"
    and "\<not> respondsTo i x"
  shows "find (\<lambda>a. a_id a = i) (approvals (access db x)) = Some d"
proof (cases x)
  case (Poll env c j)
  with read_keeps_settled [OF assms(1,2)] show ?thesis by simp
next
  case (Respond fails now j decision)
  with assms(3) have "j \<noteq> i \<or> fails" by simp
  from respond_keeps_others [OF assms(1) this] Respond show ?thesis by simp
qed

lemma history_keeps_settled:
  assumes "find (\<lambda>a. a_id a = i) (approvals db) = Some d" and "a_status d \<noteq> Pending"
    and "\<forall>x \<in> set xs. \<not> respondsTo i x"
  shows "find (\<lambda>a. a_id a = i) (approvals (history db xs)) = Some d"
  using assms unfolding history_def
proof (induction xs arbitrary: db)
  case Nil
  then show ?case by simp
next
  case (Cons x xs)
  from Cons.prems(3) have x: "\<not> respondsTo i x" and xs: "\<forall>x \<in> set xs. \<not> respondsTo i x"
    by simp_all
  from access_keeps_settled [OF Cons.prems(1,2) x] Cons.prems(2) xs show ?case
    by (simp add: Cons.IH)
qed

lemma expiringApproval_fields:
  "a_id expiringApproval = ''approval1''" "a_agentId expiringApproval = ''agent1''"
  "a_status expiringApproval = Pending" "expiresAt expiringApproval = 1700000260005"
  "createdAt expiringApproval = 1700000200005" "respondedAt expiringApproval = None"
  by (simp_all add: expiringApproval_def approvalData_def exampleEnv_def exampleAgent_def)

lemma isDemo_example: "\<not> isDemo ''approval1''"
  by (simp add: isDemo_def)

lemma updateApproval_example:
  "updateApproval t ''approval1'' s [expiringApproval]
     = [expiringApproval\<lparr>a_status := s, respondedAt := Some t\<rparr>]"
  by (simp add: updateApproval_def expiringApproval_fields)

lemma poll_expired_example:
  "getApprovalStatus (pollAt 1700000260006) pendingDb ''agent1'' ''approval1''
     = (expiredDb, 200,
        ApprovalStatusBody ''approval1'' Expired 1700000200005 1700000260005 None)"
  by (simp add: getApprovalStatus_def pendingDb_def expiredDb_def expiringApproval_fields
        pollAt_def)

lemma respond_expired_example:
  "respondToApproval False 1700000260500 expiredDb ''approval1'' Approve
     = Some (expiredDb\<lparr>approvals :=
               [expiringApproval\<lparr>a_status := Approved, respondedAt := Some 1700000260500\<rparr>]\<rparr>)"
  by (simp add: expiredDb_def respondToApproval_def expiringApproval_fields)

lemma poll_approved_example:
  "snd (getApprovalStatus (pollAt 1700000270000)
          (expiredDb\<lparr>approvals :=
              [expiringApproval\<lparr>a_status := Approved, respondedAt := Some 1700000260500\<rparr>]\<rparr>)
          ''agent1'' ''approval1'')
     = (200, ApprovalStatusBody ''approval1'' Approved 1700000200005 1700000260005
               (Some (Some 1700000260500)))"
  by (simp add: getApprovalStatus_def expiringApproval_fields pollAt_def)

text \<open>
  The sentence of C5 as it is written fails once the owner responds: a poll one
  millisecond after the expiry time stores expired and returns it; the card of the request
  on the owner's screen, whose timer last ticked before the expiry time, still offers the
  response; the owner's approval overwrites the stored status, and the next poll returns
  approved.
\<close>

theorem response_after_expiry_counterexample:
  "getApprovalStatus (pollAt 1700000260006) pendingDb ''agent1'' ''approval1''
     = (expiredDb, 200,
        ApprovalStatusBody ''approval1'' Expired 1700000200005 1700000260005 None)
   \<and> offered (Some 1700000260000) [expiringApproval] expiringApproval
   \<and> snd (handleApprove (respondAt 1700000260500) (expiredDb, [expiringApproval]) ''approval1'')
       = AlertDone
   \<and> snd (getApprovalStatus (pollAt 1700000270000)
            (fst (fst (handleApprove (respondAt 1700000260500) (expiredDb, [expiringApproval])
                         ''approval1'')))
            ''agent1'' ''approval1'')
       = (200, ApprovalStatusBody ''approval1'' Approved 1700000200005 1700000260005
                 (Some (Some 1700000260500)))"
proof -
  have o: "offered (Some 1700000260000) [expiringApproval] expiringApproval"
    by (simp add: offered_def displayApprovals_def isExpired_def expiringApproval_fields)
  have h: "handleApprove (respondAt 1700000260500) (expiredDb, [expiringApproval]) ''approval1''
       = ((expiredDb\<lparr>approvals :=
                      [expiringApproval\<lparr>a_status := Approved,
                                         respondedAt := Some 1700000260500\<rparr>]\<rparr>,
           [expiringApproval\<lparr>a_status := Approved, respondedAt := Some 1700000260500\<rparr>]),
          AlertDone)"
    unfolding handleApprove_def
    by (simp add: isDemo_example respondAt_def respond_expired_example updateApproval_example)
  from poll_expired_example o poll_approved_example show ?thesis
    by (simp only: h fst_conv snd_conv simp_thms)
qed

text \<open>
  C5 (amended). When the agent that owns a stored pending request polls it at a time
  after its \<open>expiresAt\<close> and the store answers, the poll writes status expired and
  returns expired; from then on, after any further polls by anyone, at any time and
  whether or not they fail, and after any responses of the owner to other requests or
  whose write failed, a poll of the request that reads the store returns expired. No
  poll, and no sequence of polls, changes a stored request except from pending to
  expired.
\<close>

theorem lazy_expiry_monotone:
  assumes "find (\<lambda>a. a_id a = i) (approvals db) = Some data"
    and "a_agentId data = caller" and "a_status data = Pending"
    and "expiresAt data < pollNow env" and "\<not> getFails env" and "\<not> updateFails env"
  shows "snd (getApprovalStatus env db caller i)
           = (200, ApprovalStatusBody i Expired (createdAt data) (expiresAt data) None)
       \<and> find (\<lambda>a. a_id a = i) (approvals (fst (getApprovalStatus env db caller i)))
           = Some (data\<lparr>a_status := Expired\<rparr>)
       \<and> (\<forall>xs env2. \<not> getFails env2 \<and> (\<forall>x \<in> set xs. \<not> respondsTo i x) \<longrightarrow>
             snd (getApprovalStatus env2 (history (fst (getApprovalStatus env db caller i)) xs)
                    caller i)
               = (200, ApprovalStatusBody i Expired (createdAt data) (expiresAt data)
                         (Some (respondedAt data))))
       \<and> list_all2 forwardOnly (approvals db0) (approvals (fst (getApprovalStatus env0 db0 c0 j0)))
       \<and> list_all2 forwardOnly (approvals db0) (approvals (pollAll db0 ps0))"
proof -
  have f: "find (\<lambda>a. a_id a = i) (approvals (fst (getApprovalStatus env db caller i)))
           = Some (data\<lparr>a_status := Expired\<rparr>)"
    using assms by (simp add: getApprovalStatus_def find_updateDoc_same)
  have "snd (getApprovalStatus env2 (history (fst (getApprovalStatus env db caller i)) xs) caller i)
          = (200, ApprovalStatusBody i Expired (createdAt data) (expiresAt data)
                    (Some (respondedAt data)))"
    if "\<not> getFails env2" "\<forall>x \<in> set xs. \<not> respondsTo i x" for xs env2
    using history_keeps_settled [OF f _ that(2)] that(1) assms(2)
    by (simp add: getApprovalStatus_def)
  with f assms show ?thesis
    by (simp add: read_forwardOnly reads_forwardOnly) (simp add: getApprovalStatus_def)
qed

theorem lazy_expiry_monotone_witness:
  "getApprovalStatus (pollAt 1700000320005) pendingDb ''agent1'' ''approval1''
     = (expiredDb, 200,
        ApprovalStatusBody ''approval1'' Expired 1700000200005 1700000260005 None)
   \<and> snd (getApprovalStatus (pollAt 1700000200006)
            (history (fst (getApprovalStatus (pollAt 1700000320005) pendingDb ''agent1''
                             ''approval1''))
               [Poll (pollAt 1700000330000) ''agent1'' ''approval1'',
                Respond True 1700000340000 ''approval1'' Approve,
                Respond False 1700000350000 ''approval2'' Deny])
            ''agent1'' ''approval1'')
     = (200, ApprovalStatusBody ''approval1'' Expired 1700000200005 1700000260005 (Some None))"
proof -
  have f: "find (\<lambda>a. a_id a = ''approval1'') (approvals pendingDb) = Some expiringApproval"
    by (simp add: pendingDb_def expiringApproval_fields)
  have e: "expiresAt expiringApproval < pollNow (pollAt 1700000320005)"
    by (simp add: expiringApproval_fields pollAt_def)
  have g: "\<not> getFails (pollAt t)" "\<not> updateFails (pollAt t)" for t
    by (simp_all add: pollAt_def)
  have r: "fst (getApprovalStatus (pollAt 1700000320005) pendingDb ''agent1'' ''approval1'')
             = expiredDb"
    by (simp add: getApprovalStatus_def pendingDb_def expiredDb_def expiringApproval_fields
          pollAt_def)
  have n: "\<forall>x \<in> set [Poll (pollAt 1700000330000) ''agent1'' ''approval1'',
                        Respond True 1700000340000 ''approval1'' Approve,
                        Respond False 1700000350000 ''approval2'' Deny].
             \<not> respondsTo ''approval1'' x"
    by simp
  from lazy_expiry_monotone [OF f expiringApproval_fields(2,3) e g]
  have "snd (getApprovalStatus (pollAt 1700000320005) pendingDb ''agent1'' ''approval1'')
           = (200, ApprovalStatusBody ''approval1'' Expired (createdAt expiringApproval)
                     (expiresAt expiringApproval) None)"
    and "\<forall>xs env2. \<not> getFails env2 \<and> (\<forall>x \<in> set xs. \<not> respondsTo ''approval1'' x) \<longrightarrow>
             snd (getApprovalStatus env2
                    (history (fst (getApprovalStatus (pollAt 1700000320005) pendingDb ''agent1''
                                     ''approval1'')) xs) ''agent1'' ''approval1'')
               = (200, ApprovalStatusBody ''approval1'' Expired (createdAt expiringApproval)
                         (expiresAt expiringApproval) (Some (respondedAt expiringApproval)))"
    by blast+
  from this(1) this(2) [rule_format, OF conjI, OF g(1) n, of 1700000200006] r
  show ?thesis
    by (simp only: expiringApproval_fields prod_eq_iff fst_conv snd_conv)
qed

lemma respond_denied_example:
  "respondToApproval False 1700000250000 deniedDb ''approval1'' Approve
     = Some (deniedDb\<lparr>approvals :=
               [expiringApproval\<lparr>a_status := Approved, respondedAt := Some 1700000250000\<rparr>]\<rparr>)"
  by (simp add: deniedDb_def respondToApproval_def expiringApproval_fields)

text \<open>
  The sentence of C6 as it is written fails: a request that is stored as denied, and
  still pending in the client's list, is offered on the screen before its expiry, and the
  owner's approval overwrites the stored status and \<open>respondedAt\<close>.
\<close>

theorem respond_to_denied_counterexample:
  "approvals deniedDb
     = [expiringApproval\<lparr>a_status := Denied, respondedAt := Some 1700000230000\<rparr>]
   \<and> offered (Some 1700000250000) [expiringApproval] expiringApproval
   \<and> handleApprove (respondAt 1700000250000) (deniedDb, [expiringApproval]) ''approval1''
       = ((deniedDb\<lparr>approvals :=
                      [expiringApproval\<lparr>a_status := Approved,
                                         respondedAt := Some 1700000250000\<rparr>]\<rparr>,
           [expiringApproval\<lparr>a_status := Approved, respondedAt := Some 1700000250000\<rparr>]),
          AlertDone)"
proof -
  have "approvals deniedDb
          = [expiringApproval\<lparr>a_status := Denied, respondedAt := Some 1700000230000\<rparr>]"
    by (simp add: deniedDb_def)
  moreover have "offered (Some 1700000250000) [expiringApproval] expiringApproval"
    by (simp add: offered_def displayApprovals_def isExpired_def expiringApproval_fields)
  moreover have "handleApprove (respondAt 1700000250000) (deniedDb, [expiringApproval])
                   ''approval1''
       = ((deniedDb\<lparr>approvals :=
                      [expiringApproval\<lparr>a_status := Approved,
                                         respondedAt := Some 1700000250000\<rparr>]\<rparr>,
           [expiringApproval\<lparr>a_status := Approved, respondedAt := Some 1700000250000\<rparr>]),
          AlertDone)"
    unfolding handleApprove_def
    by (simp add: isDemo_example respondAt_def respond_denied_example updateApproval_example)
  ultimately show ?thesis by (simp only: simp_thms)
qed

lemma displayed_not_responded:
  assumes "s \<noteq> Pending"
  shows "\<forall>a \<in> set (displayApprovals (updateApproval t i s ps)). a_id a \<noteq> i"
proof
  fix a
  assume "a \<in> set (displayApprovals (updateApproval t i s ps))"
  then obtain b where "b \<in> set ps"
      and a: "a = (if a_id b = i then b\<lparr>a_status := s, respondedAt := Some t\<rparr> else b)"
      and p: "a_status a = Pending"
    unfolding displayApprovals_def updateApproval_def by auto
  show "a_id a \<noteq> i"
  proof
    assume "a_id a = i"
    with a have "a = b\<lparr>a_status := s, respondedAt := Some t\<rparr>" by (simp split: if_splits)
    then have "a_status a = s" by simp
    with p assms show False by simp
  qed
qed

text \<open>
  C6 (amended). \<open>respondToApproval\<close> does not look at the stored status: for every stored
  request, whatever its status, a response whose write does not fail sets the status to
  the decision and \<open>respondedAt\<close> to the response time. The approval screen offers a
  response only to a request that is pending in the client's list and whose card has not
  seen the expiry time pass; after a response that did not fail the request is no longer
  shown, and a response that failed changes neither the store nor the list.
\<close>

theorem response_without_status_check:
  "(find (\<lambda>a. a_id a = i) (approvals db) = Some d \<longrightarrow>
      (\<exists>db'. respondToApproval False now db i decision = Some db'
         \<and> find (\<lambda>a. a_id a = i) (approvals db')
             = Some (d\<lparr>a_status := decided decision, respondedAt := Some now\<rparr>)))
   \<and> (\<forall>a. offered lastTick ps a \<longrightarrow>
          a \<in> set ps \<and> a_status a = Pending \<and> (\<forall>t. lastTick = Some t \<longrightarrow> t < expiresAt a))
   \<and> (snd (handleApprove env st i) = AlertDone \<longrightarrow>
        (\<forall>a \<in> set (displayApprovals (snd (fst (handleApprove env st i)))). a_id a \<noteq> i))
   \<and> (snd (handleDeny env st i) = AlertDone \<longrightarrow>
        (\<forall>a \<in> set (displayApprovals (snd (fst (handleDeny env st i)))). a_id a \<noteq> i))
   \<and> (snd (handleApprove env st i) = AlertError \<longrightarrow> fst (handleApprove env st i) = st)
   \<and> (snd (handleDeny env st i) = AlertError \<longrightarrow> fst (handleDeny env st i) = st)"
proof (intro conjI impI)
  assume "find (\<lambda>a. a_id a = i) (approvals db) = Some d"
  then show "\<exists>db'. respondToApproval False now db i decision = Some db'
         \<and> find (\<lambda>a. a_id a = i) (approvals db')
             = Some (d\<lparr>a_status := decided decision, respondedAt := Some now\<rparr>)"
    by (simp add: respondToApproval_def find_updateDoc_same)
next
  show "\<forall>a. offered lastTick ps a \<longrightarrow>
          a \<in> set ps \<and> a_status a = Pending \<and> (\<forall>t. lastTick = Some t \<longrightarrow> t < expiresAt a)"
    by (auto simp: offered_def displayApprovals_def isExpired_def)
next
  assume "snd (handleApprove env st i) = AlertDone"
  then show "\<forall>a \<in> set (displayApprovals (snd (fst (handleApprove env st i)))). a_id a \<noteq> i"
    using displayed_not_responded [of Approved "storeNow env" i "snd st"]
    by (simp add: handleApprove_def split: if_splits option.splits)
next
  assume "snd (handleDeny env st i) = AlertDone"
  then show "\<forall>a \<in> set (displayApprovals (snd (fst (handleDeny env st i)))). a_id a \<noteq> i"
    using displayed_not_responded [of Denied "storeNow env" i "snd st"]
    by (simp add: handleDeny_def split: if_splits option.splits)
next
  assume "snd (handleApprove env st i) = AlertError"
  then show "fst (handleApprove env st i) = st"
    by (simp add: handleApprove_def split: if_splits option.splits)
next
  assume "snd (handleDeny env st i) = AlertError"
  then show "fst (handleDeny env st i) = st"
    by (simp add: handleDeny_def split: if_splits option.splits)
qed

theorem response_without_status_check_witness:
  "respondToApproval False 1700000250000 pendingDb ''approval1'' Deny
     = Some (pendingDb\<lparr>approvals :=
               [expiringApproval\<lparr>a_status := Denied, respondedAt := Some 1700000250000\<rparr>]\<rparr>)
   \<and> handleDeny (respondAt 1700000250000) (pendingDb, [expiringApproval]) ''approval1''
       = ((pendingDb\<lparr>approvals :=
                       [expiringApproval\<lparr>a_status := Denied,
                                          respondedAt := Some 1700000250000\<rparr>]\<rparr>,
           [expiringApproval\<lparr>a_status := Denied, respondedAt := Some 1700000250000\<rparr>]),
          AlertDone)
   \<and> displayApprovals
         (snd (fst (handleDeny (respondAt 1700000250000) (pendingDb, [expiringApproval])
                      ''approval1''))) = []
   \<and> handleApprove ((respondAt 1700000250000)\<lparr>writeFails := True\<rparr>)
         (pendingDb, [expiringApproval]) ''approval1''
       = ((pendingDb, [expiringApproval]), AlertError)"
proof -
  have f: "find (\<lambda>a. a_id a = ''approval1'') (approvals pendingDb) = Some expiringApproval"
    by (simp add: pendingDb_def expiringApproval_fields)
  have r: "respondToApproval False 1700000250000 pendingDb ''approval1'' Deny
     = Some (pendingDb\<lparr>approvals :=
               [expiringApproval\<lparr>a_status := Denied, respondedAt := Some 1700000250000\<rparr>]\<rparr>)"
    by (simp add: pendingDb_def respondToApproval_def expiringApproval_fields)
  have h: "handleDeny (respondAt 1700000250000) (pendingDb, [expiringApproval]) ''approval1''
       = ((pendingDb\<lparr>approvals :=
                       [expiringApproval\<lparr>a_status := Denied,
                                          respondedAt := Some 1700000250000\<rparr>]\<rparr>,
           [expiringApproval\<lparr>a_status := Denied, respondedAt := Some 1700000250000\<rparr>]),
          AlertDone)"
    unfolding handleDeny_def
    by (simp add: isDemo_example respondAt_def r updateApproval_example)
  have k: "handleApprove ((respondAt 1700000250000)\<lparr>writeFails := True\<rparr>)
         (pendingDb, [expiringApproval]) ''approval1''
       = ((pendingDb, [expiringApproval]), AlertError)"
    unfolding handleApprove_def
    by (simp add: isDemo_example respondToApproval_def respondAt_def)
  have d: "displayApprovals
         (snd (fst (handleDeny (respondAt 1700000250000) (pendingDb, [expiringApproval])
                      ''approval1''))) = []"
    by (simp add: h displayApprovals_def)
  from response_without_status_check
         [where i = "''approval1''" and db = pendingDb and d = expiringApproval
            and now = 1700000250000 and decision = Deny
            and env = "respondAt 1700000250000" and st = "(pendingDb, [expiringApproval])"]
       f r h k d
  show ?thesis
    by (simp only: simp_thms)
qed

section \<open>Properties of the ingestion\<close>

lemma map_filter_append: "List.map_filter f (xs @ ys) = List.map_filter f xs @ List.map_filter f ys"
  by (simp add: List.map_filter_def)

lemma commit_transactions:
  "transactions (commit batch db) = transactions db @ List.map_filter stagedTx batch"
  unfolding commit_def
proof (induction batch arbitrary: db)
  case Nil
  show ?case by (simp add: List.map_filter_simps)
next
  case (Cons w ws)
  show ?case
    by (cases w) (simp_all add: Cons.IH List.map_filter_simps stagedTx_def)
qed

lemma buildTxDoc_unstamped:
  "buildTxDoc toUpperCase serverTime tx = Some d \<Longrightarrow> tx_agentId d = None \<and> tx_id d = []"
  by (auto simp: buildTxDoc_def Let_def split: option.splits)

text \<open>What the \<^verbatim>\<open>try\<close> block of an event leaves in the batch: the event's record, if it has
  one, after what was staged before.\<close>

lemma processTx_staged:
  "List.map_filter stagedTx (fst (after (processTx toUpperCase serverTime db env tx st)))
     = List.map_filter stagedTx (fst st)
       @ (case recordOf toUpperCase serverTime db (env, Some tx) of None \<Rightarrow> [] | Some d \<Rightarrow> [d])"
proof (cases "buildTxDoc toUpperCase serverTime tx")
  case None
  then show ?thesis by (simp add: processTx_def recordOf_def)
next
  case (Some txDoc)
  from buildTxDoc_unstamped [OF Some] have "txDoc\<lparr>tx_agentId := None\<rparr> = txDoc" by simp
  then have u: "txDoc\<lparr>tx_agentId := None, tx_id := i\<rparr> = txDoc\<lparr>tx_id := i\<rparr>" for i
    by simp
  show ?thesis
  proof (cases "tx_from txDoc = None \<or> tx_to txDoc = None \<or> agentQueryFails env")
    case True
    with Some show ?thesis by (auto simp: processTx_def recordOf_def)
  next
    case False
    show ?thesis
    proof (cases "matchAgent db (tx_from txDoc) (tx_to txDoc)")
      case None
      with Some False u show ?thesis
        by (cases "signature txDoc")
           (simp_all add: processTx_def recordOf_def setTransaction_def map_filter_append
              List.map_filter_simps stagedTx_def)
    next
      case (Some agentDoc)
      with \<open>buildTxDoc toUpperCase serverTime tx = Some txDoc\<close> False show ?thesis
        by (cases "signature txDoc")
           (simp_all add: processTx_def recordOf_def setTransaction_def map_filter_append
              List.map_filter_simps stagedTx_def)
    qed
  qed
qed

text \<open>The block ends with an exception exactly for the events without a record.\<close>

lemma processTx_Thrown_iff:
  "(\<exists>st'. processTx toUpperCase serverTime db env tx st = Thrown st')
     \<longleftrightarrow> recordOf toUpperCase serverTime db (env, Some tx) = None"
  by (auto simp: processTx_def recordOf_def setTransaction_def split: option.splits)

lemma processAll_objects:
  assumes "\<forall>e \<in> set es. snd e \<noteq> None"
  shows "\<exists>st'. processAll toUpperCase serverTime db es st = Some st'
           \<and> List.map_filter stagedTx (fst st')
               = List.map_filter stagedTx (fst st)
                 @ List.map_filter (recordOf toUpperCase serverTime db) es"
  using assms
proof (induction es arbitrary: st)
  case Nil
  show ?case by (simp add: List.map_filter_simps)
next
  case (Cons e es)
  from Cons.prems obtain env tx where e: "e = (env, Some tx)"
    by (cases e) auto
  from Cons.prems have "\<forall>e \<in> set es. snd e \<noteq> None" by simp
  from Cons.IH [OF this, of "after (processTx toUpperCase serverTime db env tx st)"]
  obtain st' where
    "processAll toUpperCase serverTime db es
       (after (processTx toUpperCase serverTime db env tx st)) = Some st'"
    and "List.map_filter stagedTx (fst st')
           = List.map_filter stagedTx
               (fst (after (processTx toUpperCase serverTime db env tx st)))
             @ List.map_filter (recordOf toUpperCase serverTime db) es"
    by blast
  then show ?case
    by (simp add: e processTx_staged List.map_filter_simps split: option.splits)
qed

text \<open>An element that is \<^verbatim>\<open>null\<close> ends the loop with an exception, wherever it stands.\<close>

lemma processAll_null:
  "processAll toUpperCase serverTime db (es @ (env, None) # es') st = None"
proof (induction es arbitrary: st)
  case Nil
  show ?case by simp
next
  case (Cons e es)
  show ?case
    by (cases e; cases "snd e") (simp_all add: Cons.IH)
qed

text \<open>
  On a batch whose elements are all objects the claim C9 holds. When the batch commit
  goes through, the ledger after an ingestion call is the ledger before it followed by
  the records of the events, in their order: every event whose processing raises no
  error contributes its normalized record, with the matched agent's id when an agent
  matched and without one when none did; an event whose processing raises contributes no
  record, and the events after it are processed and committed all the same.
\<close>

lemma ingest_of_objects:
  assumes "\<forall>e \<in> set events. snd e \<noteq> None"
  shows "(\<not> batchCommitFails \<longrightarrow>
      (\<exists>db' tally. ingest toUpperCase batchCommitFails serverTime db events = Some (db', tally)
         \<and> transactions db'
             = transactions db @ List.map_filter (recordOf toUpperCase serverTime db) events))
   \<and> (\<forall>e \<in> set events. \<forall>d. recordOf toUpperCase serverTime db e = Some d \<longrightarrow>
         tx_id d = txRefId (fst e)
         \<and> tx_agentId d = map_option agent_id (matchAgent db (tx_from d) (tx_to d)))"
proof (intro conjI impI ballI allI)
  assume "\<not> batchCommitFails"
  with processAll_objects [OF assms, of toUpperCase serverTime db "([], Map.empty)"]
  show "\<exists>db' tally. ingest toUpperCase batchCommitFails serverTime db events = Some (db', tally)
         \<and> transactions db'
             = transactions db @ List.map_filter (recordOf toUpperCase serverTime db) events"
    by (auto simp: ingest_def commit_transactions List.map_filter_simps)
next
  fix e d
  assume "recordOf toUpperCase serverTime db e = Some d"
  then show "tx_id d = txRefId (fst e)"
    by (auto simp: recordOf_def split: option.splits if_splits)
next
  fix e d
  assume "recordOf toUpperCase serverTime db e = Some d"
  then show "tx_agentId d = map_option agent_id (matchAgent db (tx_from d) (tx_to d))"
    by (auto simp: recordOf_def split: option.splits if_splits)
qed

text \<open>The records of the example events.\<close>

lemma buildTxDoc_example:
  "buildTxDoc toUpperCase 1700000500100 (exampleEvent sig payer (Some (Fin 1700000400)))
     = Some (exampleRecord toUpperCase [] sig payer 1700000400000 None)"
  "buildTxDoc toUpperCase 1700000500100 (exampleEvent sig payer (Some (Fin 1700000401)))
     = Some (exampleRecord toUpperCase [] sig payer 1700000401000 None)"
  "buildTxDoc toUpperCase 1700000500100 (exampleEvent sig payer None) = None"
  by (simp_all add: buildTxDoc_def Let_def exampleEvent_def exampleRecord_def orString_def
        whenTruthy_def round64_numeral round64_examples)

lemma matchAgent_examples:
  "matchAgent exampleDb (Some ''walletA'') (Some ''walletC'') = Some exampleAgent"
  "matchAgent exampleDb (Some ''walletZ'') (Some ''walletC'') = None"
  by (simp_all add: matchAgent_def exampleDb_def exampleAgent_def)

lemma exampleRecord_fields:
  "tx_from (exampleRecord toUpperCase i sig payer t agent) = Some payer"
  "tx_to (exampleRecord toUpperCase i sig payer t agent) = Some ''walletC''"
  "signature (exampleRecord toUpperCase i sig payer t agent) = Some sig"
  "(exampleRecord toUpperCase i sig payer t agent)\<lparr>tx_agentId := a, tx_id := j\<rparr>
     = exampleRecord toUpperCase j sig payer t a"
  by (simp_all add: exampleRecord_def)

lemma recordOf_examples:
  "recordOf toUpperCase 1700000500100 exampleDb
       (eventEnv ''tx2'', Some (exampleEvent ''sig2'' ''walletA'' (Some (Fin 1700000400))))
     = Some (exampleRecord toUpperCase ''tx2'' ''sig2'' ''walletA'' 1700000400000 (Some ''agent1''))"
  "recordOf toUpperCase 1700000500100 exampleDb
       (eventEnv ''tx3'', Some (exampleEvent ''sig3'' ''walletA'' None)) = None"
  "recordOf toUpperCase 1700000500100 exampleDb
       (eventEnv ''tx4'', Some (exampleEvent ''sig4'' ''walletZ'' (Some (Fin 1700000401))))
     = Some (exampleRecord toUpperCase ''tx4'' ''sig4'' ''walletZ'' 1700000401000 None)"
  by (simp_all add: recordOf_def buildTxDoc_example exampleRecord_fields matchAgent_examples
        eventEnv_def exampleAgent_def)

lemma ingest_example:
  "map_option (\<lambda>r. transactions (fst r))
       (ingest toUpperCase False 1700000500100 exampleDb exampleBatch)
     = Some (transactions exampleDb
             @ [exampleRecord toUpperCase ''tx2'' ''sig2'' ''walletA'' 1700000400000
                  (Some ''agent1''),
                exampleRecord toUpperCase ''tx4'' ''sig4'' ''walletZ'' 1700000401000 None])"
proof -
  have o: "\<forall>e \<in> set exampleBatch. snd e \<noteq> None"
    by (simp add: exampleBatch_def)
  have m: "List.map_filter (recordOf toUpperCase 1700000500100 exampleDb) exampleBatch
             = [exampleRecord toUpperCase ''tx2'' ''sig2'' ''walletA'' 1700000400000
                  (Some ''agent1''),
                exampleRecord toUpperCase ''tx4'' ''sig4'' ''walletZ'' 1700000401000 None]"
    by (simp add: exampleBatch_def List.map_filter_simps recordOf_examples)
  from ingest_of_objects [OF o, of False toUpperCase 1700000500100 exampleDb]
  obtain db' tally
    where "ingest toUpperCase False 1700000500100 exampleDb exampleBatch = Some (db', tally)"
      and "transactions db' = transactions exampleDb
             @ List.map_filter (recordOf toUpperCase 1700000500100 exampleDb) exampleBatch"
    by blast
  with m show ?thesis by simp
qed

text \<open>An event without a fee is stored with the fee NaN.\<close>

lemma missing_fee_stored_as_NaN:
  "map_option fee
       (buildTxDoc toUpperCase 1700000500100
          ((exampleEvent sig payer (Some (Fin 1700000400)))\<lparr>h_fee := None\<rparr>))
     = Some (Some NaN)"
  by (simp add: buildTxDoc_def Let_def exampleEvent_def round64_numeral)

text \<open>An event of the agent's wallet without a signature raises at the last statement of
  the block, after the update of the agent and the count for the notification were
  staged: it contributes no record, but it is not without effect.\<close>

lemma missing_signature_stages_update:
  "processTx toUpperCase 1700000500100 exampleDb (eventEnv ''tx2'')
       ((exampleEvent sig ''walletA'' (Some (Fin 1700000400)))\<lparr>h_signature := None\<rparr>)
       ([], Map.empty)
     = Thrown ([UpdateLastSeen ''agent1'' 1700000500000], accumulate exampleAgent Map.empty)"
proof -
  have b: "buildTxDoc toUpperCase 1700000500100
             ((exampleEvent sig ''walletA'' (Some (Fin 1700000400)))\<lparr>h_signature := None\<rparr>)
           = Some ((exampleRecord toUpperCase [] sig ''walletA'' 1700000400000 None)
                     \<lparr>signature := None\<rparr>)"
    by (simp add: buildTxDoc_def Let_def exampleEvent_def exampleRecord_def orString_def
          whenTruthy_def round64_numeral round64_examples)
  show ?thesis
    by (simp add: processTx_def b exampleRecord_fields matchAgent_examples setTransaction_def
          eventEnv_def exampleAgent_def)
qed

text \<open>
  C9. The claim fails on a batch with an element that is \<^verbatim>\<open>null\<close>: the \<^verbatim>\<open>catch\<close> block
  reads \<^verbatim>\<open>tx.signature\<close> and throws in turn, the loop and the handler end there, and
  \<^verbatim>\<open>batch.commit()\<close> is not reached, wherever the \<^verbatim>\<open>null\<close> stands in the batch. In the
  batch of an event of the agent's wallet followed by \<^verbatim>\<open>null\<close>, the event is processed
  without error and has a record, and nothing is committed.
\<close>

theorem null_event_aborts_ingestion:
  "ingest toUpperCase batchCommitFails serverTime db (events @ (env, None) # events') = None
   \<and> recordOf toUpperCase 1700000500100 exampleDb (hd nullBatch)
       = Some (exampleRecord toUpperCase ''tx2'' ''sig2'' ''walletA'' 1700000400000
                 (Some ''agent1''))
   \<and> snd (last nullBatch) = None
   \<and> ingest toUpperCase False 1700000500100 exampleDb nullBatch = None"
proof -
  have n: "nullBatch
             = [(eventEnv ''tx2'', Some (exampleEvent ''sig2'' ''walletA'' (Some (Fin 1700000400))))]
               @ (eventEnv ''tx3'', None) # []"
    by (simp add: nullBatch_def)
  have "ingest toUpperCase False 1700000500100 exampleDb nullBatch = None"
    unfolding n ingest_def by (simp only: processAll_null option.case)
  moreover have "recordOf toUpperCase 1700000500100 exampleDb (hd nullBatch)
       = Some (exampleRecord toUpperCase ''tx2'' ''sig2'' ''walletA'' 1700000400000
                 (Some ''agent1''))"
    by (simp add: nullBatch_def recordOf_examples)
  moreover have "snd (last nullBatch) = None" by (simp add: nullBatch_def)
  moreover have "ingest toUpperCase batchCommitFails serverTime db
                   (events @ (env, None) # events') = None"
    unfolding ingest_def by (simp only: processAll_null option.case)
  ultimately show ?thesis by (simp only: simp_thms)
qed
end
